theory Spec2Isabelle
  imports Complex_Main "HOL-Library.Product_Lexorder"
begin

section \<open>Persisted data\<close>

text \<open>
  The add-on keeps its annotations in SQLite files of the user's profile folder: one file
  \<^verbatim>\<open>pdf_<md5 of the path>.db\<close> per document (tables \<^verbatim>\<open>pdf_highlights\<close> and
  \<^verbatim>\<open>pdf_comments\<close>), and the shared file \<^verbatim>\<open>item_manager.db\<close> (table
  \<^verbatim>\<open>item_queue\<close>, and, when written by an earlier version, the two annotation tables
  for all documents together).

  A table is the list of its rows; SQLite's REAL columns hold the finite floats that
  \<^verbatim>\<open>fitz.Rect\<close> and \<^verbatim>\<open>fitz.Point\<close> carry and are compared by value, so they are
  \<^typ>\<open>real\<close> here. Every table is declared
  \<^verbatim>\<open>id INTEGER PRIMARY KEY AUTOINCREMENT\<close>: SQLite remembers in \<^verbatim>\<open>sqlite_sequence\<close>
  the largest rowid the table ever had, which is the second component kept with each table.
  Storage failures of SQLite itself (disk full, locked file) and its 64-bit limit on rowids
  are outside this model, except in \<open>migrate_pdf_data\<close>, whose handlers are modelled.
\<close>

record fitz_rect =
  rect_x0 :: real
  rect_y0 :: real
  rect_x1 :: real
  rect_y1 :: real

record fitz_point =
  point_x :: real
  point_y :: real

record highlight_row =
  hl_id :: int
  hl_pdf_path :: string
  hl_page_number :: int
  hl_x0 :: real
  hl_y0 :: real
  hl_x1 :: real
  hl_y1 :: real
  highlighted_text :: "string option"

record comment_row =
  cm_id :: int
  cm_pdf_path :: string
  cm_page_number :: int
  cm_x0 :: real
  cm_y0 :: real
  comment_text :: string

record pdf_db =
  pdf_highlights :: "highlight_row list"
  highlights_seq :: int
  pdf_comments :: "comment_row list"
  comments_seq :: int

record item_row =
  item_id :: int
  item_title :: "string option"
  item_path :: string
  last_page :: "int option"
  progress :: "string option"

record main_db =
  item_queue :: "item_row list"
  item_queue_seq :: int
  old_pdf_highlights :: "highlight_row list option"
  old_pdf_comments :: "comment_row list option"

record profile =
  main_db_file :: "main_db option"
  pdf_db_files :: "string \<rightharpoonup> pdf_db"

text \<open>The columns of the constraint \<^verbatim>\<open>UNIQUE (pdf_path, page_number, x0, y0, x1, y1)\<close>.\<close>

definition hl_key :: "highlight_row \<Rightarrow> string \<times> int \<times> real \<times> real \<times> real \<times> real" where
  "hl_key r = (hl_pdf_path r, hl_page_number r, hl_x0 r, hl_y0 r, hl_x1 r, hl_y1 r)"

definition rect_key :: "string \<Rightarrow> int \<Rightarrow> fitz_rect \<Rightarrow> string \<times> int \<times> real \<times> real \<times> real \<times> real" where
  "rect_key pdf_path page_num rect =
     (pdf_path, page_num, rect_x0 rect, rect_y0 rect, rect_x1 rect, rect_y1 rect)"

text \<open>
  The rowid SQLite gives a row inserted without an id into an AUTOINCREMENT table: one more
  than the largest of the remembered sequence value and the rowids present.
\<close>

definition next_rowid :: "int \<Rightarrow> int list \<Rightarrow> int" where
  "next_rowid seq ids = fold max ids seq + 1"

text \<open>
  \<^verbatim>\<open>INSERT OR IGNORE INTO pdf_highlights\<close>, with the id given (\<open>Some i\<close>, as in the
  migration's eight-column insert) or left to SQLite (\<open>None\<close>). The sequence value moves
  before the constraints are checked, so an ignored row still uses up its rowid. A row whose
  id or whose unique columns are already present is skipped.
\<close>

definition insert_or_ignore_highlight ::
  "int option \<Rightarrow> string \<Rightarrow> int \<Rightarrow> real \<Rightarrow> real \<Rightarrow> real \<Rightarrow> real \<Rightarrow> string option \<Rightarrow> pdf_db \<Rightarrow> pdf_db" where
  "insert_or_ignore_highlight rowid pdf_path page_num a b c d text db =
     (let rows = pdf_highlights db;
          new_id = (case rowid of
                      None \<Rightarrow> next_rowid (highlights_seq db) (map hl_id rows)
                    | Some i \<Rightarrow> i);
          r = \<lparr>hl_id = new_id, hl_pdf_path = pdf_path, hl_page_number = page_num,
               hl_x0 = a, hl_y0 = b, hl_x1 = c, hl_y1 = d, highlighted_text = text\<rparr>;
          seq' = max (highlights_seq db) new_id
      in if list_ex (\<lambda>r'. hl_id r' = new_id \<or> hl_key r' = hl_key r) rows
         then db\<lparr>highlights_seq := seq'\<rparr>
         else db\<lparr>pdf_highlights := rows @ [r], highlights_seq := seq'\<rparr>)"

text \<open>The same for \<^verbatim>\<open>pdf_comments\<close>, whose only constraint is the primary key.\<close>

definition insert_or_ignore_comment ::
  "int option \<Rightarrow> string \<Rightarrow> int \<Rightarrow> real \<Rightarrow> real \<Rightarrow> string \<Rightarrow> pdf_db \<Rightarrow> pdf_db" where
  "insert_or_ignore_comment rowid pdf_path page_num a b text db =
     (let rows = pdf_comments db;
          new_id = (case rowid of
                      None \<Rightarrow> next_rowid (comments_seq db) (map cm_id rows)
                    | Some i \<Rightarrow> i);
          r = \<lparr>cm_id = new_id, cm_pdf_path = pdf_path, cm_page_number = page_num,
               cm_x0 = a, cm_y0 = b, comment_text = text\<rparr>;
          seq' = max (comments_seq db) new_id
      in if list_ex (\<lambda>r'. cm_id r' = new_id) rows
         then db\<lparr>comments_seq := seq'\<rparr>
         else db\<lparr>pdf_comments := rows @ [r], comments_seq := seq'\<rparr>)"

text \<open>
  The plain \<^verbatim>\<open>INSERT INTO pdf_comments (pdf_path, page_number, x0, y0, comment_text)\<close>:
  the id is SQLite's, and no constraint can reject the row (the text is a string, so
  \<^verbatim>\<open>NOT NULL\<close> holds).
\<close>

definition insert_comment :: "string \<Rightarrow> int \<Rightarrow> real \<Rightarrow> real \<Rightarrow> string \<Rightarrow> pdf_db \<Rightarrow> pdf_db" where
  "insert_comment pdf_path page_num a b text db =
     (let rows = pdf_comments db;
          new_id = next_rowid (comments_seq db) (map cm_id rows);
          r = \<lparr>cm_id = new_id, cm_pdf_path = pdf_path, cm_page_number = page_num,
               cm_x0 = a, cm_y0 = b, comment_text = text\<rparr>
      in db\<lparr>pdf_comments := rows @ [r], comments_seq := max (comments_seq db) new_id\<rparr>)"

section \<open>Connections\<close>

text \<open>
  \<open>get_pdf_db_path\<close>: the file name is built from the MD5 digest of the path. The digest
  function is a parameter \<open>md5\<close> of everything below, and nothing is assumed of it
  (two paths may share a file).
\<close>

definition get_pdf_db_path :: "(string \<Rightarrow> string) \<Rightarrow> string \<Rightarrow> string" where
  "get_pdf_db_path md5 pdf_path = ''pdf_'' @ md5 pdf_path @ ''.db''"

definition empty_pdf_db :: pdf_db where
  "empty_pdf_db = \<lparr>pdf_highlights = [], highlights_seq = 0, pdf_comments = [], comments_seq = 0\<rparr>"

text \<open>What a connection to a file sees: a file that is not there yet is an empty database.\<close>

definition read_pdf_db :: "profile \<Rightarrow> string \<Rightarrow> pdf_db" where
  "read_pdf_db fs db_path =
     (case pdf_db_files fs db_path of None \<Rightarrow> empty_pdf_db | Some db \<Rightarrow> db)"

definition commit_pdf_db :: "profile \<Rightarrow> string \<Rightarrow> pdf_db \<Rightarrow> profile" where
  "commit_pdf_db fs db_path db = fs\<lparr>pdf_db_files := (pdf_db_files fs)(db_path \<mapsto> db)\<rparr>"

text \<open>
  \<open>get_pdf_specific_db_connection\<close>: connects, runs the two
  \<^verbatim>\<open>CREATE TABLE IF NOT EXISTS\<close> and commits, so that the file exists afterwards with
  both tables. The connection is the path of the file.
\<close>

definition get_pdf_specific_db_connection ::
  "(string \<Rightarrow> string) \<Rightarrow> string \<Rightarrow> profile \<Rightarrow> string \<times> profile" where
  "get_pdf_specific_db_connection md5 pdf_path fs =
     (let db_path = get_pdf_db_path md5 pdf_path
      in (db_path, commit_pdf_db fs db_path (read_pdf_db fs db_path)))"

section \<open>The annotation store\<close>

text \<open>
  Each operation opens a connection, runs one statement, commits and closes. None of them
  has a \<^verbatim>\<open>return\<close> statement, so each evaluates to Python's \<^verbatim>\<open>None\<close>; the model
  returns the profile folder after the call. For \<open>add_comment_to_db\<close> the value of the
  call is kept as well (\<open>None\<close> is Python's \<^verbatim>\<open>None\<close>, \<open>Some i\<close> would be an integer).
\<close>

definition add_highlight_to_db ::
  "(string \<Rightarrow> string) \<Rightarrow> string \<Rightarrow> int \<Rightarrow> fitz_rect \<Rightarrow> string option \<Rightarrow> profile \<Rightarrow> profile" where
  "add_highlight_to_db md5 pdf_path page_num rect text fs =
     (let (conn, fs1) = get_pdf_specific_db_connection md5 pdf_path fs;
          db = insert_or_ignore_highlight None pdf_path page_num
                 (rect_x0 rect) (rect_y0 rect) (rect_x1 rect) (rect_y1 rect) text
                 (read_pdf_db fs1 conn)
      in commit_pdf_db fs1 conn db)"

definition remove_highlight_from_db ::
  "(string \<Rightarrow> string) \<Rightarrow> string \<Rightarrow> int \<Rightarrow> fitz_rect \<Rightarrow> profile \<Rightarrow> profile" where
  "remove_highlight_from_db md5 pdf_path page_num rect fs =
     (let (conn, fs1) = get_pdf_specific_db_connection md5 pdf_path fs;
          db = read_pdf_db fs1 conn;
          db' = db\<lparr>pdf_highlights :=
                   filter (\<lambda>r. \<not> (hl_pdf_path r = pdf_path \<and> hl_page_number r = page_num \<and>
                                   hl_x0 r = rect_x0 rect \<and> hl_y0 r = rect_y0 rect \<and>
                                   hl_x1 r = rect_x1 rect \<and> hl_y1 r = rect_y1 rect))
                     (pdf_highlights db)\<rparr>
      in commit_pdf_db fs1 conn db')"

definition get_highlights_for_page ::
  "(string \<Rightarrow> string) \<Rightarrow> string \<Rightarrow> int \<Rightarrow> profile \<Rightarrow> fitz_rect list \<times> profile" where
  "get_highlights_for_page md5 pdf_path page_num fs =
     (let (conn, fs1) = get_pdf_specific_db_connection md5 pdf_path fs;
          rows = filter (\<lambda>r. hl_pdf_path r = pdf_path \<and> hl_page_number r = page_num)
                   (pdf_highlights (read_pdf_db fs1 conn))
      in (map (\<lambda>r. \<lparr>rect_x0 = hl_x0 r, rect_y0 = hl_y0 r, rect_x1 = hl_x1 r, rect_y1 = hl_y1 r\<rparr>) rows,
          fs1))"

definition add_comment_to_db ::
  "(string \<Rightarrow> string) \<Rightarrow> string \<Rightarrow> int \<Rightarrow> fitz_point \<Rightarrow> string \<Rightarrow> profile \<Rightarrow> int option \<times> profile" where
  "add_comment_to_db md5 pdf_path page_num point text fs =
     (let (conn, fs1) = get_pdf_specific_db_connection md5 pdf_path fs;
          db = insert_comment pdf_path page_num (point_x point) (point_y point) text
                 (read_pdf_db fs1 conn)
      in (None, commit_pdf_db fs1 conn db))"

definition update_comment_in_db ::
  "(string \<Rightarrow> string) \<Rightarrow> string \<Rightarrow> int \<Rightarrow> string \<Rightarrow> profile \<Rightarrow> profile" where
  "update_comment_in_db md5 pdf_path comment_id new_text fs =
     (let (conn, fs1) = get_pdf_specific_db_connection md5 pdf_path fs;
          db = read_pdf_db fs1 conn;
          db' = db\<lparr>pdf_comments :=
                   map (\<lambda>r. if cm_id r = comment_id then r\<lparr>comment_text := new_text\<rparr> else r)
                     (pdf_comments db)\<rparr>
      in commit_pdf_db fs1 conn db')"

definition delete_comment_from_db ::
  "(string \<Rightarrow> string) \<Rightarrow> string \<Rightarrow> int \<Rightarrow> profile \<Rightarrow> profile" where
  "delete_comment_from_db md5 pdf_path comment_id fs =
     (let (conn, fs1) = get_pdf_specific_db_connection md5 pdf_path fs;
          db = read_pdf_db fs1 conn;
          db' = db\<lparr>pdf_comments := filter (\<lambda>r. cm_id r \<noteq> comment_id) (pdf_comments db)\<rparr>
      in commit_pdf_db fs1 conn db')"

definition get_comments_for_page ::
  "(string \<Rightarrow> string) \<Rightarrow> string \<Rightarrow> int \<Rightarrow> profile \<Rightarrow> (int \<times> fitz_point \<times> string) list \<times> profile" where
  "get_comments_for_page md5 pdf_path page_num fs =
     (let (conn, fs1) = get_pdf_specific_db_connection md5 pdf_path fs;
          rows = filter (\<lambda>r. cm_pdf_path r = pdf_path \<and> cm_page_number r = page_num)
                   (pdf_comments (read_pdf_db fs1 conn))
      in (map (\<lambda>r. (cm_id r, \<lparr>point_x = cm_x0 r, point_y = cm_y0 r\<rparr>, comment_text r)) rows,
          fs1))"

text \<open>
  The two tables of the per-document file of a path, as a connection reads them (empty
  while the file does not exist).
\<close>

definition stored_highlights :: "(string \<Rightarrow> string) \<Rightarrow> string \<Rightarrow> profile \<Rightarrow> highlight_row list" where
  "stored_highlights md5 pdf_path fs = pdf_highlights (read_pdf_db fs (get_pdf_db_path md5 pdf_path))"

definition stored_comments :: "(string \<Rightarrow> string) \<Rightarrow> string \<Rightarrow> profile \<Rightarrow> comment_row list" where
  "stored_comments md5 pdf_path fs = pdf_comments (read_pdf_db fs (get_pdf_db_path md5 pdf_path))"

section \<open>Sample states\<close>

text \<open>A profile folder with no database file yet, and one holding a single highlight.\<close>

definition empty_profile :: profile where
  "empty_profile = \<lparr>main_db_file = None, pdf_db_files = Map.empty\<rparr>"

definition one_highlight_profile :: profile where
  "one_highlight_profile =
     add_highlight_to_db id ''A.pdf'' 2
       \<lparr>rect_x0 = 10, rect_y0 = 10, rect_x1 = 50, rect_y1 = 20\<rparr> (Some ''x'') empty_profile"

section \<open>The annotations list\<close>

datatype annot_type = Highlight | Comment

record annotation =
  annot_type :: annot_type
  annot_page :: int
  annot_text :: "string option"

text \<open>
  \<open>get_all_highlights_for_pdf\<close> and \<open>get_all_comments_for_pdf\<close>: the rows of the document
  \<^verbatim>\<open>ORDER BY page_number, id\<close>, each turned into a dictionary with the keys type, page
  and text.
\<close>

definition get_all_highlights_for_pdf ::
  "(string \<Rightarrow> string) \<Rightarrow> string \<Rightarrow> profile \<Rightarrow> annotation list \<times> profile" where
  "get_all_highlights_for_pdf md5 pdf_path fs =
     (let (conn, fs1) = get_pdf_specific_db_connection md5 pdf_path fs;
          rows = sort_key (\<lambda>r. (hl_page_number r, hl_id r))
                   (filter (\<lambda>r. hl_pdf_path r = pdf_path) (pdf_highlights (read_pdf_db fs1 conn)))
      in (map (\<lambda>r. \<lparr>annot_type = Highlight, annot_page = hl_page_number r,
                     annot_text = highlighted_text r\<rparr>) rows,
          fs1))"

definition get_all_comments_for_pdf ::
  "(string \<Rightarrow> string) \<Rightarrow> string \<Rightarrow> profile \<Rightarrow> annotation list \<times> profile" where
  "get_all_comments_for_pdf md5 pdf_path fs =
     (let (conn, fs1) = get_pdf_specific_db_connection md5 pdf_path fs;
          rows = sort_key (\<lambda>r. (cm_page_number r, cm_id r))
                   (filter (\<lambda>r. cm_pdf_path r = pdf_path) (pdf_comments (read_pdf_db fs1 conn)))
      in (map (\<lambda>r. \<lparr>annot_type = Comment, annot_page = cm_page_number r,
                     annot_text = Some (comment_text r)\<rparr>) rows,
          fs1))"

text \<open>
  \<open>populate_annotations_list\<close> fills the list widget of the viewer: one placeholder item
  when there is no annotation, else one item per annotation, in the order of
  \<^verbatim>\<open>sorted(all_highlights + all_comments, key=lambda x: x['page'])\<close> (Python's sort is
  stable, as \<^const>\<open>sort_key\<close> is). An item is kept as the annotation it shows; the icon
  and the shortening of its text to 75 characters are presentation only.
\<close>

datatype list_item = NoAnnotationsFound | AnnotItem annotation

definition populate_annotations_list ::
  "(string \<Rightarrow> string) \<Rightarrow> string \<Rightarrow> profile \<Rightarrow> list_item list \<times> profile" where
  "populate_annotations_list md5 pdf_path fs =
     (let (all_highlights, fs1) = get_all_highlights_for_pdf md5 pdf_path fs;
          (all_comments, fs2) = get_all_comments_for_pdf md5 pdf_path fs1;
          all_annotations = sort_key annot_page (all_highlights @ all_comments)
      in (if all_annotations = [] then [NoAnnotationsFound] else map AnnotItem all_annotations,
          fs2))"

text \<open>The highlights and the comments of a document on one page, by ascending id.\<close>

definition page_highlights :: "(string \<Rightarrow> string) \<Rightarrow> string \<Rightarrow> int \<Rightarrow> profile \<Rightarrow> highlight_row list" where
  "page_highlights md5 pdf_path p fs =
     sort_key hl_id (filter (\<lambda>r. hl_pdf_path r = pdf_path \<and> hl_page_number r = p)
                       (stored_highlights md5 pdf_path fs))"

definition page_comments :: "(string \<Rightarrow> string) \<Rightarrow> string \<Rightarrow> int \<Rightarrow> profile \<Rightarrow> comment_row list" where
  "page_comments md5 pdf_path p fs =
     sort_key cm_id (filter (\<lambda>r. cm_pdf_path r = pdf_path \<and> cm_page_number r = p)
                       (stored_comments md5 pdf_path fs))"

definition highlight_annotation :: "highlight_row \<Rightarrow> annotation" where
  "highlight_annotation r =
     \<lparr>annot_type = Highlight, annot_page = hl_page_number r, annot_text = highlighted_text r\<rparr>"

definition comment_annotation :: "comment_row \<Rightarrow> annotation" where
  "comment_annotation r =
     \<lparr>annot_type = Comment, annot_page = cm_page_number r, annot_text = Some (comment_text r)\<rparr>"

text \<open>A comment written first and a highlight drawn second, both on page 1 of A.pdf.\<close>

definition comment_then_highlight :: profile where
  "comment_then_highlight =
     add_highlight_to_db id ''A.pdf'' 1
       \<lparr>rect_x0 = 10, rect_y0 = 10, rect_x1 = 50, rect_y1 = 20\<rparr> (Some ''second'')
       (snd (add_comment_to_db id ''A.pdf'' 1 \<lparr>point_x = 3, point_y = 4\<rparr> ''first''
               empty_profile))"

section \<open>Migration from the shared store\<close>

text \<open>
  \<open>migrate_pdf_data\<close> runs when a viewer opens. Its SQLite calls sit in one
  \<^verbatim>\<open>try\<close> block whose handlers show a warning, so a failing call is part of the
  function's behaviour. The parameter \<open>fault\<close> names the call that raises (an error
  other than "no such table"), if any; the steps are listed in the order of the source. A
  connection that is dropped without a commit rolls its pending statements back: what a
  failed run leaves behind is what was committed before.
\<close>

datatype step =
    ConnectOld | SelectMaster | SelectHighlights | SelectComments
  | ConnectNew | InsertHighlights | InsertComments | CommitNew | CloseNew
  | DeleteHighlights | DeleteComments | CommitOld | CloseOld

datatype notice = Tooltip | Warning

text \<open>
  \<^verbatim>\<open>executemany("INSERT OR IGNORE INTO pdf_highlights VALUES (?, ?, ?, ?, ?, ?, ?, ?)", highlights)\<close>:
  each fetched row is inserted with the id it had.
\<close>

definition executemany_highlights :: "highlight_row list \<Rightarrow> pdf_db \<Rightarrow> pdf_db" where
  "executemany_highlights rows db =
     fold (\<lambda>r. insert_or_ignore_highlight (Some (hl_id r)) (hl_pdf_path r) (hl_page_number r)
                 (hl_x0 r) (hl_y0 r) (hl_x1 r) (hl_y1 r) (highlighted_text r)) rows db"

definition executemany_comments :: "comment_row list \<Rightarrow> pdf_db \<Rightarrow> pdf_db" where
  "executemany_comments rows db =
     fold (\<lambda>r. insert_or_ignore_comment (Some (cm_id r)) (cm_pdf_path r) (cm_page_number r)
                 (cm_x0 r) (cm_y0 r) (comment_text r)) rows db"

text \<open>
  The second half of \<open>migrate_pdf_data\<close>, from \<^verbatim>\<open>new_conn = get_pdf_specific_db_connection(pdf_path)\<close>
  to the tooltip: the fetched rows are written to the per-document file and committed, then
  deleted from the shared store \<open>old\<close> (whose tables hold \<open>hs\<close> and \<open>cs\<close>) and that
  deletion committed. An insert runs only for a non-empty list of rows, so a \<open>fault\<close>
  that names an insert which does not run raises nothing.
\<close>

definition migrate_rows ::
  "(string \<Rightarrow> string) \<Rightarrow> step option \<Rightarrow> string \<Rightarrow> profile \<Rightarrow> main_db \<Rightarrow>
   highlight_row list \<Rightarrow> comment_row list \<Rightarrow> highlight_row list \<Rightarrow> comment_row list \<Rightarrow>
   notice option \<times> profile" where
  "migrate_rows md5 fault pdf_path fs old hs cs highlights comments =
     (if fault = Some ConnectNew then (Some Warning, fs)
      else (let (new_conn, fs1) = get_pdf_specific_db_connection md5 pdf_path fs
       in if (fault = Some InsertHighlights \<and> highlights \<noteq> []) \<or>
             (fault = Some InsertComments \<and> comments \<noteq> []) \<or>
             fault = Some CommitNew
          then (Some Warning, fs1)
          else (let db = executemany_comments comments
                           (executemany_highlights highlights (read_pdf_db fs1 new_conn));
                    fs2 = commit_pdf_db fs1 new_conn db
           in if fault = Some CloseNew \<or> fault = Some DeleteHighlights \<or>
                 fault = Some DeleteComments \<or> fault = Some CommitOld
              then (Some Warning, fs2)
              else (let old' = old\<lparr>old_pdf_highlights :=
                                     Some (filter (\<lambda>r. hl_pdf_path r \<noteq> pdf_path) hs),
                                   old_pdf_comments :=
                                     Some (filter (\<lambda>r. cm_pdf_path r \<noteq> pdf_path) cs)\<rparr>;
                        fs3 = fs2\<lparr>main_db_file := Some old'\<rparr>
               in if fault = Some CloseOld then (Some Warning, fs3)
                  else (Some Tooltip, fs3)))))"

text \<open>
  \<open>migrate_pdf_data\<close> itself: nothing is done when the per-document file exists, when the
  shared file does not, when the shared store has no table \<^verbatim>\<open>pdf_highlights\<close>, when
  reading \<^verbatim>\<open>pdf_comments\<close> raises "no such table" (the handler passes), or when the
  document has no row in either table.
\<close>

definition migrate_pdf_data ::
  "(string \<Rightarrow> string) \<Rightarrow> step option \<Rightarrow> string \<Rightarrow> profile \<Rightarrow> notice option \<times> profile" where
  "migrate_pdf_data md5 fault pdf_path fs =
     (let new_db_path = get_pdf_db_path md5 pdf_path
      in if pdf_db_files fs new_db_path \<noteq> None then (None, fs)
         else (case main_db_file fs of
           None \<Rightarrow> (None, fs)
         | Some old \<Rightarrow>
            (if fault = Some ConnectOld \<or> fault = Some SelectMaster then (Some Warning, fs)
             else (case old_pdf_highlights old of
               None \<Rightarrow> (None, fs)
             | Some hs \<Rightarrow>
                (if fault = Some SelectHighlights then (Some Warning, fs)
                 else (case old_pdf_comments old of
                   None \<Rightarrow> (None, fs)
                 | Some cs \<Rightarrow>
                    (if fault = Some SelectComments then (Some Warning, fs)
                     else (let highlights = filter (\<lambda>r. hl_pdf_path r = pdf_path) hs;
                               comments = filter (\<lambda>r. cm_pdf_path r = pdf_path) cs
                      in if highlights = [] \<and> comments = [] then (None, fs)
                         else migrate_rows md5 fault pdf_path fs old hs cs
                                highlights comments))))))))"

text \<open>The rows of a document in the shared store (none where the table is missing).\<close>

definition shared_highlights :: "string \<Rightarrow> profile \<Rightarrow> highlight_row list" where
  "shared_highlights pdf_path fs =
     (case main_db_file fs of
        None \<Rightarrow> []
      | Some old \<Rightarrow> (case old_pdf_highlights old of
                      None \<Rightarrow> []
                    | Some hs \<Rightarrow> filter (\<lambda>r. hl_pdf_path r = pdf_path) hs))"

definition shared_comments :: "string \<Rightarrow> profile \<Rightarrow> comment_row list" where
  "shared_comments pdf_path fs =
     (case main_db_file fs of
        None \<Rightarrow> []
      | Some old \<Rightarrow> (case old_pdf_comments old of
                      None \<Rightarrow> []
                    | Some cs \<Rightarrow> filter (\<lambda>r. cm_pdf_path r = pdf_path) cs))"

text \<open>
  A profile written by the earlier version: the shared store holds one highlight and one
  comment of A.pdf and a highlight of B.pdf; no per-document file exists.
\<close>

definition legacy_profile :: profile where
  "legacy_profile =
     \<lparr>main_db_file = Some
        \<lparr>item_queue = [], item_queue_seq = 0,
         old_pdf_highlights = Some
           [\<lparr>hl_id = 1, hl_pdf_path = ''A.pdf'', hl_page_number = 2,
             hl_x0 = 10, hl_y0 = 10, hl_x1 = 50, hl_y1 = 20, highlighted_text = Some ''x''\<rparr>,
            \<lparr>hl_id = 2, hl_pdf_path = ''B.pdf'', hl_page_number = 1,
             hl_x0 = 0, hl_y0 = 0, hl_x1 = 5, hl_y1 = 5, highlighted_text = None\<rparr>],
         old_pdf_comments = Some
           [\<lparr>cm_id = 7, cm_pdf_path = ''A.pdf'', cm_page_number = 3,
             cm_x0 = 3, cm_y0 = 4, comment_text = ''n''\<rparr>]\<rparr>,
      pdf_db_files = Map.empty\<rparr>"

section \<open>The coordinate mapper\<close>

text \<open>
  Qt's integer geometry. A \<^verbatim>\<open>QRect\<close> stores its corners, so \<^verbatim>\<open>QRect(x, y, w, h)\<close> has
  \<^verbatim>\<open>right() = x + w - 1\<close> and \<^verbatim>\<open>bottom() = y + h - 1\<close>; \<open>intersects\<close> follows
  \<^verbatim>\<open>QRect::intersects\<close>, which is false for a null rectangle and reads a rectangle of
  negative extent by its swapped corners.
\<close>

record qsize =
  size_width :: int
  size_height :: int

definition size_isEmpty :: "qsize \<Rightarrow> bool" where
  "size_isEmpty s = (size_width s < 1 \<or> size_height s < 1)"

record qrect =
  rect_left :: int
  rect_top :: int
  rect_right :: int
  rect_bottom :: int

definition QRect :: "int \<Rightarrow> int \<Rightarrow> int \<Rightarrow> int \<Rightarrow> qrect" where
  "QRect a b w h = \<lparr>rect_left = a, rect_top = b, rect_right = a + w - 1, rect_bottom = b + h - 1\<rparr>"

definition rect_isNull :: "qrect \<Rightarrow> bool" where
  "rect_isNull r = (rect_right r = rect_left r - 1 \<and> rect_bottom r = rect_top r - 1)"

definition intersects :: "qrect \<Rightarrow> qrect \<Rightarrow> bool" where
  "intersects r s =
     (if rect_isNull r \<or> rect_isNull s then False
      else let l1 = (if rect_right r - rect_left r + 1 < 0 then rect_right r else rect_left r);
               r1 = (if rect_right r - rect_left r + 1 < 0 then rect_left r else rect_right r);
               l2 = (if rect_right s - rect_left s + 1 < 0 then rect_right s else rect_left s);
               r2 = (if rect_right s - rect_left s + 1 < 0 then rect_left s else rect_right s)
           in if l1 > r2 \<or> l2 > r1 then False
              else let t1 = (if rect_bottom r - rect_top r + 1 < 0 then rect_bottom r else rect_top r);
                       b1 = (if rect_bottom r - rect_top r + 1 < 0 then rect_top r else rect_bottom r);
                       t2 = (if rect_bottom s - rect_top s + 1 < 0 then rect_bottom s else rect_top s);
                       b2 = (if rect_bottom s - rect_top s + 1 < 0 then rect_top s else rect_bottom s)
                   in \<not> (t1 > b2 \<or> t2 > b1))"

text \<open>
  Python's \<^verbatim>\<open>int(x)\<close> on a float truncates toward zero. The overlay painter below
  scales document coordinates, which are \<^typ>\<open>real\<close> here, and truncates them with
  \<open>py_int\<close>.
\<close>

definition py_int :: "real \<Rightarrow> int" where
  "py_int a = (if 0 \<le> a then \<lfloor>a\<rfloor> else \<lceil>a\<rceil>)"

text \<open>
  A pixmap is its size and its content: the raster the PDF library produced and what has
  been painted over it since. The null pixmap has size 0 by 0.
\<close>

datatype colour = Yellow | Orange

datatype draw_op = DrawRect colour qrect | DrawText int int string

record qpixmap =
  pixmap_size :: qsize
  pixmap_raster :: "nat list"
  pixmap_painted :: "draw_op list"

definition pixmap_isNull :: "qpixmap \<Rightarrow> bool" where
  "pixmap_isNull pm = (size_width (pixmap_size pm) = 0 \<and> size_height (pixmap_size pm) = 0)"

text \<open>
  A page widget, as far as the viewer reads it: the pixmap its image label shows
  (\<open>None\<close> before the first \<^verbatim>\<open>set_pixmap\<close>) and the size of that label.
\<close>

record page_widget =
  label_pixmap :: "qpixmap option"
  label_size :: qsize

datatype py_error = ZeroDivisionError | IndexError | TypeError

text \<open>
  The numbers of the mapper are Python ints and Python floats. The float arithmetic of the
  interpreter is the parameter \<open>fl\<close> of the mapper: the float of an int, quotient, product,
  difference, comparison, test for zero and \<^verbatim>\<open>int(x)\<close>. Nothing is assumed of it, so no
  rounding of the model's own stands in for the interpreter's.
\<close>

record 'f float_ops =
  f_of_int :: "int \<Rightarrow> 'f"
  f_div :: "'f \<Rightarrow> 'f \<Rightarrow> 'f"
  f_mul :: "'f \<Rightarrow> 'f \<Rightarrow> 'f"
  f_sub :: "'f \<Rightarrow> 'f \<Rightarrow> 'f"
  f_less :: "'f \<Rightarrow> 'f \<Rightarrow> bool"
  f_is_zero :: "'f \<Rightarrow> bool"
  f_trunc :: "'f \<Rightarrow> int"

datatype 'f pynum = PyInt int | PyFloat 'f

definition to_float :: "'f float_ops \<Rightarrow> 'f pynum \<Rightarrow> 'f" where
  "to_float fl a = (case a of PyInt i \<Rightarrow> f_of_int fl i | PyFloat c \<Rightarrow> c)"

text \<open>
  \<^verbatim>\<open>a / b\<close> is always a float. Each division of the mapper has a divisor that is not
  zero (a pixel count tested positive, the constant 2, or the quotient of two positive pixel
  counts), except the division by \<^verbatim>\<open>self.current_dpi\<close>, whose failure is written out
  where it occurs.
\<close>

definition py_truediv :: "'f float_ops \<Rightarrow> 'f pynum \<Rightarrow> 'f pynum \<Rightarrow> 'f pynum" where
  "py_truediv fl a b = PyFloat (f_div fl (to_float fl a) (to_float fl b))"

definition py_mul :: "'f float_ops \<Rightarrow> 'f pynum \<Rightarrow> 'f pynum \<Rightarrow> 'f pynum" where
  "py_mul fl a b =
     (case a of
        PyInt i \<Rightarrow> (case b of
                      PyInt j \<Rightarrow> PyInt (i * j)
                    | PyFloat d \<Rightarrow> PyFloat (f_mul fl (f_of_int fl i) d))
      | PyFloat c \<Rightarrow> PyFloat (f_mul fl c (to_float fl b)))"

definition py_sub :: "'f float_ops \<Rightarrow> 'f pynum \<Rightarrow> 'f pynum \<Rightarrow> 'f pynum" where
  "py_sub fl a b =
     (case a of
        PyInt i \<Rightarrow> (case b of
                      PyInt j \<Rightarrow> PyInt (i - j)
                    | PyFloat d \<Rightarrow> PyFloat (f_sub fl (f_of_int fl i) d))
      | PyFloat c \<Rightarrow> PyFloat (f_sub fl c (to_float fl b)))"

definition py_gt :: "'f float_ops \<Rightarrow> 'f pynum \<Rightarrow> 'f pynum \<Rightarrow> bool" where
  "py_gt fl a b =
     (case a of
        PyInt i \<Rightarrow> (case b of
                      PyInt j \<Rightarrow> i > j
                    | PyFloat d \<Rightarrow> f_less fl d (f_of_int fl i))
      | PyFloat c \<Rightarrow> f_less fl (to_float fl b) c)"

definition py_to_int :: "'f float_ops \<Rightarrow> 'f pynum \<Rightarrow> int" where
  "py_to_int fl a = (case a of PyInt i \<Rightarrow> i | PyFloat c \<Rightarrow> f_trunc fl c)"

text \<open>
  \<^verbatim>\<open>QRect(x, y, w, h)\<close> called from Python: the constructor takes four ints, and the
  binding raises a TypeError when it is given a float.
\<close>

definition QRect_call :: "'f pynum \<Rightarrow> 'f pynum \<Rightarrow> 'f pynum \<Rightarrow> 'f pynum \<Rightarrow> py_error + qrect" where
  "QRect_call a b w h =
     (case a of
        PyFloat c \<Rightarrow> Inl TypeError
      | PyInt a' \<Rightarrow> (case b of
          PyFloat c \<Rightarrow> Inl TypeError
        | PyInt b' \<Rightarrow> (case w of
            PyFloat c \<Rightarrow> Inl TypeError
          | PyInt w' \<Rightarrow> (case h of
              PyFloat c \<Rightarrow> Inl TypeError
            | PyInt h' \<Rightarrow> Inr (QRect a' b' w' h')))))"

text \<open>
  The placement of the image inside the label, lines 1453 to 1460 of the source. The scaled
  size is made of ints; of the two offsets one is the int 0 and the other comes from the
  true division by 2 and is a float.
\<close>

definition letterbox :: "'f float_ops \<Rightarrow> qsize \<Rightarrow> qsize \<Rightarrow> 'f pynum \<times> 'f pynum \<times> int \<times> int" where
  "letterbox fl pixmap_original_size lbl =
     (let pix_w = size_width pixmap_original_size; pix_h = size_height pixmap_original_size;
          lbl_w = size_width lbl; lbl_h = size_height lbl;
          ratio_pix = (if pix_h > 0 then py_truediv fl (PyInt pix_w) (PyInt pix_h) else PyInt 1);
          ratio_lbl = (if lbl_h > 0 then py_truediv fl (PyInt lbl_w) (PyInt lbl_h) else PyInt 1)
      in if py_gt fl ratio_lbl ratio_pix
         then (let scaled_h = lbl_h; scaled_w = py_to_int fl (py_mul fl (PyInt lbl_h) ratio_pix)
               in (py_truediv fl (PyInt (lbl_w - scaled_w)) (PyInt 2), PyInt 0, scaled_w, scaled_h))
         else (let scaled_w = lbl_w; scaled_h = py_to_int fl (py_truediv fl (PyInt lbl_w) ratio_pix)
               in (PyInt 0, py_truediv fl (PyInt (lbl_h - scaled_h)) (PyInt 2), scaled_w, scaled_h)))"

text \<open>
  \<^verbatim>\<open>_convert_widget_pos_to_pdf_rect\<close>. The offsets go to
  \<^verbatim>\<open>QRect(offset_x, offset_y, scaled_w, scaled_h)\<close> as they are. \<open>Inr None\<close> is Python's
  \<^verbatim>\<open>None\<close>, \<open>Inr (Some (x0, y0, x1, y1))\<close> a \<^verbatim>\<open>fitz.Rect\<close> of four floats, and
  \<open>Inl\<close> an exception that leaves the function.
\<close>

definition convert_widget_pos_to_pdf_rect ::
  "'f float_ops \<Rightarrow> int \<Rightarrow> page_widget \<Rightarrow> qrect \<Rightarrow> py_error + ('f \<times> 'f \<times> 'f \<times> 'f) option" where
  "convert_widget_pos_to_pdf_rect fl current_dpi pw selection_rect =
     (case label_pixmap pw of
        None \<Rightarrow> Inr None
      | Some pm \<Rightarrow>
         (if pixmap_isNull pm then Inr None
          else if size_isEmpty (pixmap_size pm) \<or> size_isEmpty (label_size pw) then Inr None
          else (let pix_w = size_width (pixmap_size pm); pix_h = size_height (pixmap_size pm);
                    (offset_x, offset_y, scaled_w, scaled_h) =
                       letterbox fl (pixmap_size pm) (label_size pw)
           in case QRect_call offset_x offset_y (PyInt scaled_w) (PyInt scaled_h) of
                Inl e \<Rightarrow> Inl e
              | Inr image_rect \<Rightarrow>
                 (if \<not> intersects image_rect selection_rect then Inr None
                  else (let scale_x_ratio =
                              (if scaled_w > 0 then py_truediv fl (PyInt pix_w) (PyInt scaled_w)
                               else PyInt 1);
                            scale_y_ratio =
                              (if scaled_h > 0 then py_truediv fl (PyInt pix_h) (PyInt scaled_h)
                               else PyInt 1);
                            pixmap_x0 = py_mul fl (py_sub fl (PyInt (rect_left selection_rect)) offset_x)
                                          scale_x_ratio;
                            pixmap_y0 = py_mul fl (py_sub fl (PyInt (rect_top selection_rect)) offset_y)
                                          scale_y_ratio;
                            pixmap_x1 = py_mul fl (py_sub fl (PyInt (rect_right selection_rect)) offset_x)
                                          scale_x_ratio;
                            pixmap_y1 = py_mul fl (py_sub fl (PyInt (rect_bottom selection_rect)) offset_y)
                                          scale_y_ratio
                    in if current_dpi = 0 then Inl ZeroDivisionError
                       else (let pdf_points_per_pixel =
                                   py_truediv fl (PyFloat (f_of_int fl 72)) (PyInt current_dpi)
                        in Inr (Some (to_float fl (py_mul fl pixmap_x0 pdf_points_per_pixel),
                                      to_float fl (py_mul fl pixmap_y0 pdf_points_per_pixel),
                                      to_float fl (py_mul fl pixmap_x1 pdf_points_per_pixel),
                                      to_float fl (py_mul fl pixmap_y1 pdf_points_per_pixel)))))))))"

text \<open>
  The truth value of a \<^verbatim>\<open>fitz.Rect\<close>: false exactly when all four coordinates are 0
  (PyMuPDF's \<^verbatim>\<open>__bool__\<close>).
\<close>

definition rect_bool :: "'f float_ops \<Rightarrow> 'f \<times> 'f \<times> 'f \<times> 'f \<Rightarrow> bool" where
  "rect_bool fl r =
     (case r of (a, b, c, d) \<Rightarrow>
        \<not> (f_is_zero fl a \<and> f_is_zero fl b \<and> f_is_zero fl c \<and> f_is_zero fl d))"

text \<open>
  \<^verbatim>\<open>_convert_widget_pos_to_pdf_point\<close>: the position becomes the rectangle
  \<^verbatim>\<open>QRect(pos, QSize(1,1))\<close>, and \<^verbatim>\<open>fitz.Point(rect.x0, rect.y0) if rect else None\<close>
  is returned.
\<close>

definition convert_widget_pos_to_pdf_point ::
  "'f float_ops \<Rightarrow> int \<Rightarrow> page_widget \<Rightarrow> int \<times> int \<Rightarrow> py_error + ('f \<times> 'f) option" where
  "convert_widget_pos_to_pdf_point fl current_dpi pw pos =
     (case convert_widget_pos_to_pdf_rect fl current_dpi pw (QRect (fst pos) (snd pos) 1 1) of
        Inl e \<Rightarrow> Inl e
      | Inr None \<Rightarrow> Inr None
      | Inr (Some rect) \<Rightarrow>
          Inr (if rect_bool fl rect then Some (fst rect, fst (snd rect)) else None))"

text \<open>A label of 100 by 100 pixels showing a page image of 50 by 100 pixels.\<close>

definition narrow_page_widget :: page_widget where
  "narrow_page_widget =
     \<lparr>label_pixmap = Some \<lparr>pixmap_size = \<lparr>size_width = 50, size_height = 100\<rparr>,
                            pixmap_raster = [], pixmap_painted = []\<rparr>,
      label_size = \<lparr>size_width = 100, size_height = 100\<rparr>\<rparr>"

section \<open>The viewer: render cache and overlays\<close>

text \<open>
  The fields of \<^verbatim>\<open>PdfViewerDialog\<close> that the functions below read or assign. The open
  document is known by its page count; \<open>self_doc_open\<close> is the truth value of \<^verbatim>\<open>self.doc\<close>.
\<close>

record viewer =
  self_pdf_path :: string
  self_doc_open :: bool
  self_total_pages :: int
  self_current_dpi :: int
  self_search_results :: "(int \<times> fitz_rect) list"
  self_page_widgets :: "page_widget list"
  self_last_known_page :: int
  self_current_page_num :: int

text \<open>
  What lies outside the viewer object: the profile folder with its databases, the add-on's
  cache directory (file name to content; a file is the PNG of a pixmap, or something
  \<^verbatim>\<open>QPixmap\<close> cannot read), and the calls \<^verbatim>\<open>doc.load_page(i).get_pixmap(dpi=d)\<close> made
  to the PDF library so far, as pairs \<open>(i, d)\<close>.
\<close>

datatype cache_file = Png qpixmap | Unreadable

record world =
  profile_folder :: profile
  cache_dir :: "string \<rightharpoonup> cache_file"
  get_pixmap_calls :: "(int \<times> int) list"

text \<open>Python's \<^verbatim>\<open>str\<close> of an integer, as the f-string of the cache file name uses it.\<close>

fun str_nat :: "nat \<Rightarrow> string" where
  "str_nat n = (if n < 10 then [''0123456789'' ! n]
                else str_nat (n div 10) @ [''0123456789'' ! (n mod 10)])"

declare str_nat.simps [simp del]

definition str_int :: "int \<Rightarrow> string" where
  "str_int i = (if i < 0 then CHR ''-'' # str_nat (nat (- i)) else str_nat (nat i))"

definition cache_filename :: "(string \<Rightarrow> string) \<Rightarrow> string \<Rightarrow> int \<Rightarrow> int \<Rightarrow> string" where
  "cache_filename md5 path page_num dpi =
     md5 path @ ''_p'' @ str_int page_num @ ''_d'' @ str_int dpi @ ''.png''"

text \<open>\<^verbatim>\<open>QPixmap(cache_filepath)\<close>: a file that cannot be decoded gives the null pixmap.\<close>

definition null_pixmap :: qpixmap where
  "null_pixmap = \<lparr>pixmap_size = \<lparr>size_width = 0, size_height = 0\<rparr>,
                  pixmap_raster = [], pixmap_painted = []\<rparr>"

definition QPixmap_load :: "cache_file \<Rightarrow> qpixmap" where
  "QPixmap_load f = (case f of Png pm \<Rightarrow> pm | Unreadable \<Rightarrow> null_pixmap)"

text \<open>
  The miss branch of \<open>load_page\<close>: the page is rendered by the PDF library (\<open>render\<close>,
  from page index and DPI to the converted pixmap) and saved as PNG;
  \<^verbatim>\<open>QPixmap.save\<close> writes nothing for a null pixmap.
\<close>

definition render_and_save ::
  "(int \<Rightarrow> int \<Rightarrow> qpixmap) \<Rightarrow> string \<Rightarrow> int \<Rightarrow> int \<Rightarrow> world \<Rightarrow> qpixmap \<times> world" where
  "render_and_save render cache_filepath page_num dpi w =
     (let qpixmap = render (page_num - 1) dpi
      in (qpixmap,
          w\<lparr>get_pixmap_calls := get_pixmap_calls w @ [(page_num - 1, dpi)],
            cache_dir := (if pixmap_isNull qpixmap then cache_dir w
                          else (cache_dir w)(cache_filepath \<mapsto> Png qpixmap))\<rparr>))"

text \<open>
  Width and height of a \<^verbatim>\<open>fitz.Rect\<close> (never negative), and the mark drawn for a
  comment (the UTF-8 bytes of the speech balloon).
\<close>

definition rect_width :: "fitz_rect \<Rightarrow> real" where
  "rect_width r = max 0 (rect_x1 r - rect_x0 r)"

definition rect_height :: "fitz_rect \<Rightarrow> real" where
  "rect_height r = max 0 (rect_y1 r - rect_y0 r)"

definition comment_mark :: string where
  "comment_mark = [char_of (240 :: nat), char_of (159 :: nat), char_of (146 :: nat), char_of (172 :: nat)]"

definition scaled_rect :: "real \<Rightarrow> fitz_rect \<Rightarrow> qrect" where
  "scaled_rect scale r =
     QRect (py_int (rect_x0 r * scale)) (py_int (rect_y0 r * scale))
           (py_int (rect_width r * scale)) (py_int (rect_height r * scale))"

text \<open>
  The second half of \<open>load_page\<close>: the annotations of the page are read, and when there is
  any highlight, comment or search hit they are painted on \<^verbatim>\<open>qpixmap.copy()\<close>, which is
  what the page widget then shows. Pixmaps are values here, so the copy is the pixmap itself
  and painting gives a new value.
\<close>

definition paint_overlays ::
  "int \<Rightarrow> fitz_rect list \<Rightarrow> fitz_rect list \<Rightarrow> (int \<times> fitz_point \<times> string) list \<Rightarrow> qpixmap \<Rightarrow> qpixmap" where
  "paint_overlays dpi highlights search_rects comments temp_pixmap =
     (let scale = real_of_int dpi / 72
      in temp_pixmap\<lparr>pixmap_painted := pixmap_painted temp_pixmap @
           map (\<lambda>r. DrawRect Yellow (scaled_rect scale r)) highlights @
           map (\<lambda>r. DrawRect Orange (scaled_rect scale r)) search_rects @
           map (\<lambda>(i, point, body).
                  DrawText (py_int (point_x point * scale)) (py_int (point_y point * scale + 10))
                    comment_mark) comments\<rparr>)"

definition compose_page ::
  "(string \<Rightarrow> string) \<Rightarrow> viewer \<Rightarrow> int \<Rightarrow> qpixmap \<Rightarrow> profile \<Rightarrow> qpixmap \<times> profile" where
  "compose_page md5 v page_num qpixmap fs =
     (let (highlights, fs1) = get_highlights_for_page md5 (self_pdf_path v) page_num fs;
          (comments, fs2) = get_comments_for_page md5 (self_pdf_path v) page_num fs1;
          search_rects = map snd (filter (\<lambda>(p_num, rect). p_num = page_num) (self_search_results v))
      in (if highlights \<noteq> [] \<or> comments \<noteq> [] \<or> search_rects \<noteq> []
          then paint_overlays (self_current_dpi v) highlights search_rects comments qpixmap
          else qpixmap,
          fs2))"

text \<open>
  The first half of \<open>load_page\<close>: the cache file of (document, page, DPI) is loaded when
  it exists, and the page is rendered when there is no file or the file gives a null pixmap.
\<close>

definition get_or_render ::
  "(string \<Rightarrow> string) \<Rightarrow> (int \<Rightarrow> int \<Rightarrow> qpixmap) \<Rightarrow> viewer \<Rightarrow> int \<Rightarrow> world \<Rightarrow> qpixmap \<times> world" where
  "get_or_render md5 render v page_num w =
     (let cache_filepath = cache_filename md5 (self_pdf_path v) page_num (self_current_dpi v);
          qpixmap = (case cache_dir w cache_filepath of
                       None \<Rightarrow> None
                     | Some f \<Rightarrow> Some (QPixmap_load f))
      in case qpixmap of
           None \<Rightarrow> render_and_save render cache_filepath page_num (self_current_dpi v) w
         | Some pm \<Rightarrow>
             if pixmap_isNull pm
             then render_and_save render cache_filepath page_num (self_current_dpi v) w
             else (pm, w))"

text \<open>
  \<open>load_page\<close>: nothing happens without a document or for a page out of range;
  \<^verbatim>\<open>self.page_widgets[page_num - 1]\<close> raises when the list is too short.
\<close>

definition load_page ::
  "(string \<Rightarrow> string) \<Rightarrow> (int \<Rightarrow> int \<Rightarrow> qpixmap) \<Rightarrow> int \<Rightarrow> viewer \<times> world \<Rightarrow>
   py_error + viewer \<times> world" where
  "load_page md5 render page_num s =
     (let v = fst s; w = snd s
      in if \<not> self_doc_open v \<or> \<not> (1 \<le> page_num \<and> page_num \<le> self_total_pages v) then Inr (v, w)
         else if \<not> nat (page_num - 1) < length (self_page_widgets v) then Inl IndexError
         else (let (qpixmap, w1) = get_or_render md5 render v page_num w;
                   (shown, fs) = compose_page md5 v page_num qpixmap (profile_folder w1);
                   i = nat (page_num - 1)
               in Inr (v\<lparr>self_page_widgets :=
                           (self_page_widgets v)[i := (self_page_widgets v ! i)\<lparr>label_pixmap := Some shown\<rparr>]\<rparr>,
                       w1\<lparr>profile_folder := fs\<rparr>)))"

text \<open>What a call of \<open>load_page\<close> leaves in the cache directory (nothing to say if it raised).\<close>

definition cache_after :: "py_error + viewer \<times> world \<Rightarrow> (string \<rightharpoonup> cache_file) option" where
  "cache_after r = (case r of Inl e \<Rightarrow> None | Inr s \<Rightarrow> Some (cache_dir (snd s)))"

text \<open>
  A viewer on A.pdf with three pages at 75 DPI, nothing cached, nothing annotated; and a
  PDF library that renders every page as a 10 by 20 pixmap.
\<close>

definition sample_viewer :: viewer where
  "sample_viewer =
     \<lparr>self_pdf_path = ''A.pdf'', self_doc_open = True, self_total_pages = 3, self_current_dpi = 75,
      self_search_results = [],
      self_page_widgets = replicate 3 \<lparr>label_pixmap = None,
                                  label_size = \<lparr>size_width = 100, size_height = 100\<rparr>\<rparr>,
      self_last_known_page = 1, self_current_page_num = 1\<rparr>"

definition sample_world :: world where
  "sample_world = \<lparr>profile_folder = empty_profile, cache_dir = Map.empty, get_pixmap_calls = []\<rparr>"

definition sample_render :: "int \<Rightarrow> int \<Rightarrow> qpixmap" where
  "sample_render i dpi =
     \<lparr>pixmap_size = \<lparr>size_width = 10, size_height = 20\<rparr>,
      pixmap_raster = [nat i, nat dpi], pixmap_painted = []\<rparr>"

section \<open>Opening a viewer: the last-viewed page\<close>

text \<open>
  \<open>get_main_db_connection\<close> creates the shared file with its table \<^verbatim>\<open>item_queue\<close> when
  it is missing (the two columns added by \<^verbatim>\<open>ALTER TABLE\<close> are always present in
  \<^typ>\<open>item_row\<close>), and \<open>get_item_details\<close> reads the row of a path.
\<close>

definition empty_main_db :: main_db where
  "empty_main_db = \<lparr>item_queue = [], item_queue_seq = 0,
                    old_pdf_highlights = None, old_pdf_comments = None\<rparr>"

definition read_main_db :: "profile \<Rightarrow> main_db" where
  "read_main_db fs = (case main_db_file fs of None \<Rightarrow> empty_main_db | Some db \<Rightarrow> db)"

definition get_main_db_connection :: "profile \<Rightarrow> profile" where
  "get_main_db_connection fs = fs\<lparr>main_db_file := Some (read_main_db fs)\<rparr>"

definition get_item_details :: "string \<Rightarrow> profile \<Rightarrow> (int \<times> string) \<times> profile" where
  "get_item_details path fs =
     (let fs1 = get_main_db_connection fs;
          result = find (\<lambda>r. item_path r = path) (item_queue (read_main_db fs1))
      in (case result of
            Some r \<Rightarrow> ((case last_page r of None \<Rightarrow> 1 | Some p \<Rightarrow> p),
                       (case progress r of None \<Rightarrow> ''[]'' | Some j \<Rightarrow> j))
          | None \<Rightarrow> (1, ''[]''),
          fs1))"

definition save_last_page :: "string \<Rightarrow> int \<Rightarrow> profile \<Rightarrow> profile" where
  "save_last_page path page_num fs =
     (let fs1 = get_main_db_connection fs; db = read_main_db fs1
      in fs1\<lparr>main_db_file := Some (db\<lparr>item_queue :=
            map (\<lambda>r. if item_path r = path then r\<lparr>last_page := Some page_num\<rparr> else r)
              (item_queue db)\<rparr>)\<rparr>)"

text \<open>
  The part of \<^verbatim>\<open>PdfViewerDialog.__init__\<close> that sets the fields of \<^typ>\<open>viewer\<close>: the
  migration runs, the item details are read, and the stored page becomes both
  \<^verbatim>\<open>last_known_page\<close> and \<^verbatim>\<open>current_page_num\<close>.
\<close>

definition viewer_init ::
  "(string \<Rightarrow> string) \<Rightarrow> step option \<Rightarrow> string \<Rightarrow> int \<Rightarrow> profile \<Rightarrow> viewer \<times> profile" where
  "viewer_init md5 fault path initial_dpi fs =
     (let (shown, fs1) = migrate_pdf_data md5 fault path fs;
          ((stored_page, progress_json), fs2) = get_item_details path fs1
      in (\<lparr>self_pdf_path = path, self_doc_open = False, self_total_pages = 0,
           self_current_dpi = initial_dpi, self_search_results = [], self_page_widgets = [],
           self_last_known_page = stored_page, self_current_page_num = stored_page\<rparr>,
          fs2))"

definition go_to_page :: "int \<Rightarrow> viewer \<Rightarrow> py_error + viewer" where
  "go_to_page page_num v =
     (if \<not> (1 \<le> page_num \<and> page_num \<le> self_total_pages v) then Inr v
      else if \<not> nat (page_num - 1) < length (self_page_widgets v) then Inl IndexError
      else Inr (v\<lparr>self_current_page_num := page_num\<rparr>))"

text \<open>\<open>load_all_pages\<close>: the loop \<^verbatim>\<open>for i in range(self.total_pages): self.load_page(i + 1)\<close>.\<close>

fun load_pages ::
  "(string \<Rightarrow> string) \<Rightarrow> (int \<Rightarrow> int \<Rightarrow> qpixmap) \<Rightarrow> int list \<Rightarrow> viewer \<times> world \<Rightarrow>
   py_error + viewer \<times> world" where
  "load_pages md5 render [] s = Inr s"
| "load_pages md5 render (p # ps) s =
     (case load_page md5 render p s of
        Inl e \<Rightarrow> Inl e
      | Inr s' \<Rightarrow> load_pages md5 render ps s')"

definition load_all_pages ::
  "(string \<Rightarrow> string) \<Rightarrow> (int \<Rightarrow> int \<Rightarrow> qpixmap) \<Rightarrow> viewer \<times> world \<Rightarrow> py_error + viewer \<times> world" where
  "load_all_pages md5 render s =
     (if \<not> self_doc_open (fst s) then Inr s
      else load_pages md5 render [1..self_total_pages (fst s)] s)"

text \<open>
  \<open>setup_pages\<close>, for a document of \<open>page_count\<close> pages: the page widgets are created
  (their labels of size \<open>lbl\<close>), all pages are loaded, the annotations list is filled, and
  the timer started at the end then calls \<^verbatim>\<open>go_to_page(self.last_known_page)\<close>. The
  word index and the list of read pages assign none of the fields kept here.
\<close>

definition setup_pages ::
  "(string \<Rightarrow> string) \<Rightarrow> (int \<Rightarrow> int \<Rightarrow> qpixmap) \<Rightarrow> int \<Rightarrow> qsize \<Rightarrow> viewer \<times> world \<Rightarrow>
   py_error + viewer \<times> world" where
  "setup_pages md5 render page_count lbl s =
     (let v = fst s; w = snd s
      in if \<not> self_doc_open v then Inr (v, w)
         else (let v1 = v\<lparr>self_page_widgets := [], self_total_pages := page_count\<rparr>
          in if \<not> self_total_pages v1 > 0 then Inr (v1, w)
             else (let v2 = v1\<lparr>self_page_widgets :=
                                 replicate (nat page_count) \<lparr>label_pixmap = None, label_size = lbl\<rparr>\<rparr>
              in case load_all_pages md5 render (v2, w) of
                   Inl e \<Rightarrow> Inl e
                 | Inr s3 \<Rightarrow>
                    (let v3 = fst s3; w3 = snd s3;
                         fs = snd (populate_annotations_list md5 (self_pdf_path v3) (profile_folder w3))
                     in case go_to_page (self_last_known_page v3) v3 of
                          Inl e \<Rightarrow> Inl e
                        | Inr v4 \<Rightarrow> Inr (v4, w3\<lparr>profile_folder := fs\<rparr>)))))"

text \<open>
  Opening a viewer on a document that the PDF library opens with \<open>page_count\<close> pages:
  \<^verbatim>\<open>__init__\<close>, \<^verbatim>\<open>_open_pdf_document\<close>, \<^verbatim>\<open>setup_pages\<close>.
\<close>

definition open_viewer ::
  "(string \<Rightarrow> string) \<Rightarrow> step option \<Rightarrow> (int \<Rightarrow> int \<Rightarrow> qpixmap) \<Rightarrow> int \<Rightarrow> qsize \<Rightarrow>
   string \<Rightarrow> int \<Rightarrow> world \<Rightarrow> py_error + viewer \<times> world" where
  "open_viewer md5 fault render page_count lbl path initial_dpi w =
     (let (v, fs) = viewer_init md5 fault path initial_dpi (profile_folder w)
      in setup_pages md5 render page_count lbl
           (v\<lparr>self_doc_open := True\<rparr>, w\<lparr>profile_folder := fs\<rparr>))"

text \<open>
  A profile whose queue holds A.pdf with page 50 stored as the last page viewed.
\<close>

definition stale_world :: world where
  "stale_world =
     \<lparr>profile_folder =
        \<lparr>main_db_file = Some
           \<lparr>item_queue = [\<lparr>item_id = 1, item_title = Some ''A'', item_path = ''A.pdf'',
                            last_page = Some 50, progress = None\<rparr>],
            item_queue_seq = 1, old_pdf_highlights = None, old_pdf_comments = None\<rparr>,
         pdf_db_files = Map.empty\<rparr>,
      cache_dir = Map.empty, get_pixmap_calls = []\<rparr>"

section \<open>Properties of the annotation store\<close>

lemma read_commit_same [simp]: "read_pdf_db (commit_pdf_db fs p db) p = db"
  by (simp add: read_pdf_db_def commit_pdf_db_def)

lemma read_commit_other [simp]: "q \<noteq> p \<Longrightarrow> read_pdf_db (commit_pdf_db fs p db) q = read_pdf_db fs q"
  by (simp add: read_pdf_db_def commit_pdf_db_def)

lemma commit_commit [simp]: "commit_pdf_db (commit_pdf_db fs p db) p db' = commit_pdf_db fs p db'"
  by (simp add: commit_pdf_db_def)

lemma main_db_file_commit [simp]: "main_db_file (commit_pdf_db fs p db) = main_db_file fs"
  by (simp add: commit_pdf_db_def)

lemma fold_max_ge_seq: "(s::int) \<le> fold max ids s"
  by (induction ids arbitrary: s) (auto intro: order_trans [OF max.cobounded2])

lemma fold_max_ge_mem: "(i::int) \<in> set ids \<Longrightarrow> i \<le> fold max ids s"
proof (induction ids arbitrary: s)
  case Nil
  then show ?case by simp
next
  case (Cons a ids)
  show ?case
  proof (cases "i = a")
    case True
    have "a \<le> max a s" by simp
    also have "\<dots> \<le> fold max ids (max a s)" by (rule fold_max_ge_seq)
    finally show ?thesis using True by simp
  next
    case False
    with Cons show ?thesis by simp
  qed
qed

lemma next_rowid_gt_seq: "seq < next_rowid seq ids"
  using fold_max_ge_seq [of seq ids] by (simp add: next_rowid_def)

lemma next_rowid_gt_mem: "i \<in> set ids \<Longrightarrow> i < next_rowid seq ids"
  using fold_max_ge_mem [of i ids seq] by (simp add: next_rowid_def)

lemma next_rowid_fresh: "next_rowid seq (map f rows) \<notin> f ` set rows"
  using next_rowid_gt_mem [of _ "map f rows" seq] by fastforce

lemma stored_highlights_add:
  "stored_highlights md5 pdf_path (add_highlight_to_db md5 pdf_path page_num rect text fs) =
     pdf_highlights (insert_or_ignore_highlight None pdf_path page_num
        (rect_x0 rect) (rect_y0 rect) (rect_x1 rect) (rect_y1 rect) text
        (read_pdf_db fs (get_pdf_db_path md5 pdf_path)))"
  by (simp add: stored_highlights_def add_highlight_to_db_def get_pdf_specific_db_connection_def Let_def)

lemma insert_or_ignore_highlight_rows:
  "pdf_highlights (insert_or_ignore_highlight None pdf_path page_num a b c d text db) =
     (if (pdf_path, page_num, a, b, c, d) \<in> hl_key ` set (pdf_highlights db)
      then pdf_highlights db
      else pdf_highlights db @
        [\<lparr>hl_id = next_rowid (highlights_seq db) (map hl_id (pdf_highlights db)),
          hl_pdf_path = pdf_path, hl_page_number = page_num,
          hl_x0 = a, hl_y0 = b, hl_x1 = c, hl_y1 = d, highlighted_text = text\<rparr>])"
  using next_rowid_fresh [of "highlights_seq db" hl_id "pdf_highlights db"]
  by (auto simp: insert_or_ignore_highlight_def Let_def list_ex_iff hl_key_def image_iff)

lemma count_key_distinct:
  "distinct (map f xs) \<Longrightarrow> k \<in> f ` set xs \<Longrightarrow> length (filter (\<lambda>r. f r = k) xs) = 1"
  by (induction xs) (auto simp: image_iff filter_empty_conv)

text \<open>
  Claim C1. Adding a highlight twice with the same document, page and rectangle (whatever the
  two texts) leaves the rows of \<^verbatim>\<open>pdf_highlights\<close> as the first call left them, with
  exactly one row for that region and no two rows sharing a region. The store is taken under
  its own \<^verbatim>\<open>UNIQUE\<close> constraint. Only the rows are compared: the second call still
  advances the table's sequence value.
\<close>

theorem add_highlight_to_db_idempotent:
  assumes "distinct (map hl_key (stored_highlights md5 pdf_path fs))"
  shows "let fs1 = add_highlight_to_db md5 pdf_path page_num rect text fs;
             fs2 = add_highlight_to_db md5 pdf_path page_num rect text' fs1
         in stored_highlights md5 pdf_path fs2 = stored_highlights md5 pdf_path fs1 \<and>
            length (filter (\<lambda>r. hl_key r = rect_key pdf_path page_num rect)
                      (stored_highlights md5 pdf_path fs2)) = 1 \<and>
            distinct (map hl_key (stored_highlights md5 pdf_path fs2))"
proof -
  let ?p = "get_pdf_db_path md5 pdf_path"
  let ?k = "rect_key pdf_path page_num rect"
  let ?fs1 = "add_highlight_to_db md5 pdf_path page_num rect text fs"
  let ?fs2 = "add_highlight_to_db md5 pdf_path page_num rect text' ?fs1"
  let ?rows = "stored_highlights md5 pdf_path fs"
  let ?rows1 = "stored_highlights md5 pdf_path ?fs1"
  have rows1: "?rows1 = (if ?k \<in> hl_key ` set ?rows then ?rows else ?rows @
        [\<lparr>hl_id = next_rowid (highlights_seq (read_pdf_db fs ?p)) (map hl_id ?rows),
          hl_pdf_path = pdf_path, hl_page_number = page_num,
          hl_x0 = rect_x0 rect, hl_y0 = rect_y0 rect, hl_x1 = rect_x1 rect, hl_y1 = rect_y1 rect,
          highlighted_text = text\<rparr>])"
    by (simp add: stored_highlights_add insert_or_ignore_highlight_rows rect_key_def)
       (simp add: stored_highlights_def)
  have mem1: "?k \<in> hl_key ` set ?rows1"
    by (auto simp: rows1 hl_key_def rect_key_def)
  have dist1: "distinct (map hl_key ?rows1)"
    using assms by (auto simp: rows1 hl_key_def rect_key_def image_iff)
  have rows2: "stored_highlights md5 pdf_path ?fs2 = ?rows1"
    using mem1
    by (simp add: stored_highlights_add [of md5 pdf_path page_num rect text' ?fs1]
        insert_or_ignore_highlight_rows rect_key_def)
       (simp add: stored_highlights_def)
  show ?thesis
    using count_key_distinct [OF dist1 mem1] dist1 by (simp add: Let_def rows2)
qed


text \<open>The first scenario of the specification: document A.pdf with no prior state.\<close>

theorem add_highlight_to_db_idempotent_witness:
  "distinct (map hl_key (stored_highlights id ''A.pdf'' empty_profile)) \<and>
   (let fs1 = add_highlight_to_db id ''A.pdf'' 2
                \<lparr>rect_x0 = 10, rect_y0 = 10, rect_x1 = 50, rect_y1 = 20\<rparr> (Some ''x'') empty_profile;
        fs2 = add_highlight_to_db id ''A.pdf'' 2
                \<lparr>rect_x0 = 10, rect_y0 = 10, rect_x1 = 50, rect_y1 = 20\<rparr> (Some ''y'') fs1
    in stored_highlights id ''A.pdf'' fs2 = stored_highlights id ''A.pdf'' fs1 \<and>
       length (filter (\<lambda>r. hl_key r =
                  rect_key ''A.pdf'' 2 \<lparr>rect_x0 = 10, rect_y0 = 10, rect_x1 = 50, rect_y1 = 20\<rparr>)
                 (stored_highlights id ''A.pdf'' fs2)) = 1 \<and>
       distinct (map hl_key (stored_highlights id ''A.pdf'' fs2)))"
proof -
  have h: "distinct (map hl_key (stored_highlights id ''A.pdf'' empty_profile))"
    by (simp add: stored_highlights_def read_pdf_db_def empty_profile_def empty_pdf_db_def)
  show ?thesis
    by (rule conjI [OF h add_highlight_to_db_idempotent [OF h]])
qed

text \<open>
  The sequence value after the two calls of the scenario: the ignored insert has used up
  rowid 2, so the two profiles differ there while their rows agree.
\<close>

lemma add_highlight_to_db_ignored_uses_rowid:
  "highlights_seq (read_pdf_db one_highlight_profile (get_pdf_db_path id ''A.pdf'')) = 1 \<and>
   highlights_seq (read_pdf_db
      (add_highlight_to_db id ''A.pdf'' 2
         \<lparr>rect_x0 = 10, rect_y0 = 10, rect_x1 = 50, rect_y1 = 20\<rparr> (Some ''y'') one_highlight_profile)
      (get_pdf_db_path id ''A.pdf'')) = 2"
  by (simp add: one_highlight_profile_def add_highlight_to_db_def get_pdf_specific_db_connection_def
      insert_or_ignore_highlight_def hl_key_def read_pdf_db_def commit_pdf_db_def
      empty_profile_def empty_pdf_db_def next_rowid_def Let_def)

lemma stored_comments_add:
  "stored_comments md5 pdf_path (snd (add_comment_to_db md5 pdf_path page_num point text fs)) =
     pdf_comments (insert_comment pdf_path page_num (point_x point) (point_y point) text
        (read_pdf_db fs (get_pdf_db_path md5 pdf_path)))"
  by (simp add: stored_comments_def add_comment_to_db_def get_pdf_specific_db_connection_def Let_def)

lemma comments_seq_add:
  "comments_seq (read_pdf_db (snd (add_comment_to_db md5 pdf_path page_num point text fs))
       (get_pdf_db_path md5 pdf_path)) =
     comments_seq (insert_comment pdf_path page_num (point_x point) (point_y point) text
        (read_pdf_db fs (get_pdf_db_path md5 pdf_path)))"
  by (simp add: add_comment_to_db_def get_pdf_specific_db_connection_def Let_def)

text \<open>
  Claim C3, as amended. Every call of \<open>add_comment_to_db\<close> appends one row, also when page,
  point and text repeat an existing comment; the row's id is larger than every id present,
  so two calls give two rows with distinct ids. The call itself evaluates to \<^verbatim>\<open>None\<close>:
  the id is assigned by the store and not handed back.
\<close>

theorem add_comment_to_db_fresh_row:
  "let (v1, fs1) = add_comment_to_db md5 pdf_path page_num point text fs;
       (v2, fs2) = add_comment_to_db md5 pdf_path page_num point text fs1;
       old = stored_comments md5 pdf_path fs;
       row = (\<lambda>i. \<lparr>cm_id = i, cm_pdf_path = pdf_path, cm_page_number = page_num,
                    cm_x0 = point_x point, cm_y0 = point_y point, comment_text = text\<rparr>)
   in v1 = None \<and> v2 = None \<and>
      (\<exists>i j. stored_comments md5 pdf_path fs1 = old @ [row i] \<and>
             stored_comments md5 pdf_path fs2 = old @ [row i, row j] \<and>
             i < j \<and> (\<forall>c \<in> set old. cm_id c < i))"
proof -
  let ?p = "get_pdf_db_path md5 pdf_path"
  let ?db = "read_pdf_db fs ?p"
  let ?fs1 = "snd (add_comment_to_db md5 pdf_path page_num point text fs)"
  let ?fs2 = "snd (add_comment_to_db md5 pdf_path page_num point text ?fs1)"
  let ?old = "stored_comments md5 pdf_path fs"
  let ?row = "\<lambda>i. \<lparr>cm_id = i, cm_pdf_path = pdf_path, cm_page_number = page_num,
                    cm_x0 = point_x point, cm_y0 = point_y point, comment_text = text\<rparr>"
  let ?i = "next_rowid (comments_seq ?db) (map cm_id ?old)"
  let ?seq1 = "max (comments_seq ?db) ?i"
  let ?j = "next_rowid ?seq1 (map cm_id (?old @ [?row ?i]))"
  have v: "fst (add_comment_to_db md5 pdf_path page_num point text s) = None" for s
    by (simp add: add_comment_to_db_def split_def Let_def)
  have rows1: "stored_comments md5 pdf_path ?fs1 = ?old @ [?row ?i]"
    by (simp add: stored_comments_add insert_comment_def Let_def) (simp add: stored_comments_def)
  have seq1: "comments_seq (read_pdf_db ?fs1 ?p) = ?seq1"
    by (simp add: comments_seq_add insert_comment_def Let_def) (simp add: stored_comments_def)
  have rows2: "stored_comments md5 pdf_path ?fs2 = ?old @ [?row ?i, ?row ?j]"
    using rows1 seq1
    by (simp add: stored_comments_add [of md5 pdf_path page_num point "text" "?fs1"]
        insert_comment_def Let_def) (simp add: stored_comments_def)
  have "?i < ?j"
    by (rule next_rowid_gt_mem) simp
  moreover have "\<forall>c \<in> set ?old. cm_id c < ?i"
    by (simp add: next_rowid_gt_mem)
  ultimately show ?thesis
    using rows1 rows2 v by (simp add: split_def Let_def)
qed

theorem add_comment_to_db_fresh_row_witness:
  "let (v1, fs1) = add_comment_to_db id ''A.pdf'' 2 \<lparr>point_x = 3, point_y = 4\<rparr> ''n'' empty_profile;
       (v2, fs2) = add_comment_to_db id ''A.pdf'' 2 \<lparr>point_x = 3, point_y = 4\<rparr> ''n'' fs1
   in v1 = None \<and> v2 = None \<and> map cm_id (stored_comments id ''A.pdf'' fs2) = [1, 2]"
  using add_comment_to_db_fresh_row [of id "''A.pdf''" 2 "\<lparr>point_x = 3, point_y = 4\<rparr>" "''n''" empty_profile]
  by (simp add: add_comment_to_db_def get_pdf_specific_db_connection_def insert_comment_def
      stored_comments_def read_pdf_db_def commit_pdf_db_def empty_profile_def empty_pdf_db_def
      next_rowid_def Let_def)

text \<open>
  Claim C3 as stated fails: on a fresh profile the comment is stored under id 1, and the call
  does not return 1.
\<close>

theorem add_comment_to_db_returns_id_counterexample:
  "map cm_id (stored_comments id ''A.pdf''
      (snd (add_comment_to_db id ''A.pdf'' 2 \<lparr>point_x = 3, point_y = 4\<rparr> ''n'' empty_profile))) = [1] \<and>
   fst (add_comment_to_db id ''A.pdf'' 2 \<lparr>point_x = 3, point_y = 4\<rparr> ''n'' empty_profile) \<noteq> Some 1"
  by (simp add: add_comment_to_db_def get_pdf_specific_db_connection_def insert_comment_def
      stored_comments_def read_pdf_db_def commit_pdf_db_def empty_profile_def empty_pdf_db_def
      next_rowid_def Let_def)

lemma stored_highlights_remove:
  "stored_highlights md5 pdf_path (remove_highlight_from_db md5 pdf_path page_num rect fs) =
     filter (\<lambda>r. hl_key r \<noteq> rect_key pdf_path page_num rect) (stored_highlights md5 pdf_path fs)"
  by (simp add: stored_highlights_def remove_highlight_from_db_def
      get_pdf_specific_db_connection_def Let_def hl_key_def rect_key_def)

lemma length_filter_neq_distinct:
  "distinct (map f xs) \<Longrightarrow> k \<in> f ` set xs \<Longrightarrow> Suc (length (filter (\<lambda>r. f r \<noteq> k) xs)) = length xs"
proof (induction xs)
  case Nil
  then show ?case by simp
next
  case (Cons a xs)
  show ?case
  proof (cases "f a = k")
    case True
    with Cons.prems have "filter (\<lambda>r. f r \<noteq> k) xs = xs"
      by (auto simp: filter_id_conv image_iff)
    with True show ?thesis by simp
  next
    case False
    with Cons show ?thesis by auto
  qed
qed

text \<open>
  Claim C9. \<open>remove_highlight_from_db\<close> keeps exactly the rows that differ from the given
  document, page and rectangle: with no matching row the highlights are unchanged, with a
  matching row (unique under the table's constraint) the table loses that one row; comments,
  the shared store and every other document's file are untouched. The function has no error
  result.
\<close>

theorem remove_highlight_from_db_exact:
  "let fs1 = remove_highlight_from_db md5 pdf_path page_num rect fs;
       k = rect_key pdf_path page_num rect;
       old = stored_highlights md5 pdf_path fs
   in stored_highlights md5 pdf_path fs1 = filter (\<lambda>r. hl_key r \<noteq> k) old \<and>
      (k \<notin> hl_key ` set old \<longrightarrow> stored_highlights md5 pdf_path fs1 = old) \<and>
      (k \<in> hl_key ` set old \<and> distinct (map hl_key old) \<longrightarrow>
         Suc (length (stored_highlights md5 pdf_path fs1)) = length old) \<and>
      stored_comments md5 pdf_path fs1 = stored_comments md5 pdf_path fs \<and>
      main_db_file fs1 = main_db_file fs \<and>
      (\<forall>q. q \<noteq> get_pdf_db_path md5 pdf_path \<longrightarrow> pdf_db_files fs1 q = pdf_db_files fs q)"
proof -
  let ?fs1 = "remove_highlight_from_db md5 pdf_path page_num rect fs"
  let ?k = "rect_key pdf_path page_num rect"
  let ?old = "stored_highlights md5 pdf_path fs"
  have rows: "stored_highlights md5 pdf_path ?fs1 = filter (\<lambda>r. hl_key r \<noteq> ?k) ?old"
    by (rule stored_highlights_remove)
  have absent: "stored_highlights md5 pdf_path ?fs1 = ?old" if "?k \<notin> hl_key ` set ?old"
    using that by (simp add: rows filter_id_conv) (metis imageI)
  have present: "Suc (length (stored_highlights md5 pdf_path ?fs1)) = length ?old"
    if "?k \<in> hl_key ` set ?old" "distinct (map hl_key ?old)"
    using length_filter_neq_distinct [OF that(2) that(1)] by (simp add: rows)
  have comments: "stored_comments md5 pdf_path ?fs1 = stored_comments md5 pdf_path fs"
    by (simp add: stored_comments_def remove_highlight_from_db_def
        get_pdf_specific_db_connection_def Let_def)
  have main: "main_db_file ?fs1 = main_db_file fs"
    by (simp add: remove_highlight_from_db_def get_pdf_specific_db_connection_def Let_def)
  have others: "pdf_db_files ?fs1 q = pdf_db_files fs q" if "q \<noteq> get_pdf_db_path md5 pdf_path" for q
    using that
    by (simp add: remove_highlight_from_db_def get_pdf_specific_db_connection_def Let_def
        commit_pdf_db_def)
  show ?thesis
    using rows absent present comments main others by (simp add: Let_def)
qed

lemma one_highlight_profile_rows:
  "stored_highlights id ''A.pdf'' one_highlight_profile =
     [\<lparr>hl_id = 1, hl_pdf_path = ''A.pdf'', hl_page_number = 2,
       hl_x0 = 10, hl_y0 = 10, hl_x1 = 50, hl_y1 = 20, highlighted_text = Some ''x''\<rparr>]"
  by (simp add: one_highlight_profile_def stored_highlights_add insert_or_ignore_highlight_rows)
     (simp add: read_pdf_db_def empty_profile_def empty_pdf_db_def next_rowid_def)

theorem remove_highlight_from_db_exact_witness:
  "stored_highlights id ''A.pdf''
     (remove_highlight_from_db id ''A.pdf'' 2
        \<lparr>rect_x0 = 10, rect_y0 = 10, rect_x1 = 50, rect_y1 = 21\<rparr> one_highlight_profile) =
     stored_highlights id ''A.pdf'' one_highlight_profile \<and>
   stored_highlights id ''A.pdf''
     (remove_highlight_from_db id ''A.pdf'' 2
        \<lparr>rect_x0 = 10, rect_y0 = 10, rect_x1 = 50, rect_y1 = 20\<rparr> one_highlight_profile) = []"
  using remove_highlight_from_db_exact [of id "''A.pdf''" 2
      "\<lparr>rect_x0 = 10, rect_y0 = 10, rect_x1 = 50, rect_y1 = 21\<rparr>" one_highlight_profile]
    remove_highlight_from_db_exact [of id "''A.pdf''" 2
      "\<lparr>rect_x0 = 10, rect_y0 = 10, rect_x1 = 50, rect_y1 = 20\<rparr>" one_highlight_profile]
  by (simp add: Let_def one_highlight_profile_rows hl_key_def rect_key_def)

section \<open>Properties of the annotations list\<close>

lemma insort_key_cong_on:
  "(\<And>y. y \<in> set ys \<Longrightarrow> (f x \<le> f y) = (g x \<le> g y)) \<Longrightarrow> insort_key f x ys = insort_key g x ys"
  by (induction ys) auto

lemma sort_key_cong_on:
  "(\<And>x y. x \<in> set xs \<Longrightarrow> y \<in> set xs \<Longrightarrow> (f x \<le> f y) = (g x \<le> g y)) \<Longrightarrow>
   sort_key f xs = sort_key g xs"
proof (induction xs)
  case Nil
  then show ?case by simp
next
  case (Cons a xs)
  have ih: "sort_key f xs = sort_key g xs"
    by (rule Cons.IH) (simp add: Cons.prems)
  have "insort_key f a (sort_key g xs) = insort_key g a (sort_key g xs)"
    by (rule insort_key_cong_on) (simp add: Cons.prems)
  with ih show ?case by simp
qed

lemma sort_key_page_id:
  fixes pg :: "'a \<Rightarrow> int" and ident :: "'a \<Rightarrow> int"
  shows "filter (\<lambda>r. pg r = p) (sort_key (\<lambda>r. (pg r, ident r)) xs) =
         sort_key ident (filter (\<lambda>r. pg r = p) xs)"
proof -
  have "filter (\<lambda>r. pg r = p) (sort_key (\<lambda>r. (pg r, ident r)) xs) =
        sort_key (\<lambda>r. (pg r, ident r)) (filter (\<lambda>r. pg r = p) xs)"
    by (rule filter_sort)
  also have "\<dots> = sort_key ident (filter (\<lambda>r. pg r = p) xs)"
    by (rule sort_key_cong_on) (auto simp: less_eq_prod_def)
  finally show ?thesis .
qed

lemma get_all_highlights_for_pdf_page:
  "filter (\<lambda>a. annot_page a = p) (fst (get_all_highlights_for_pdf md5 pdf_path fs)) =
     map highlight_annotation (page_highlights md5 pdf_path p fs)"
proof -
  let ?rows = "filter (\<lambda>r. hl_pdf_path r = pdf_path) (stored_highlights md5 pdf_path fs)"
  have "fst (get_all_highlights_for_pdf md5 pdf_path fs) =
          map highlight_annotation (sort_key (\<lambda>r. (hl_page_number r, hl_id r)) ?rows)"
    by (simp add: get_all_highlights_for_pdf_def get_pdf_specific_db_connection_def Let_def
        stored_highlights_def highlight_annotation_def)
  then have "filter (\<lambda>a. annot_page a = p) (fst (get_all_highlights_for_pdf md5 pdf_path fs)) =
          map highlight_annotation
            (filter (\<lambda>r. hl_page_number r = p) (sort_key (\<lambda>r. (hl_page_number r, hl_id r)) ?rows))"
    by (simp add: filter_map comp_def highlight_annotation_def)
  also have "\<dots> = map highlight_annotation (sort_key hl_id (filter (\<lambda>r. hl_page_number r = p) ?rows))"
    by (simp only: sort_key_page_id)
  finally show ?thesis
    by (simp add: page_highlights_def conj_commute)
qed


lemma get_all_comments_for_pdf_page:
  "filter (\<lambda>a. annot_page a = p) (fst (get_all_comments_for_pdf md5 pdf_path fs)) =
     map comment_annotation (page_comments md5 pdf_path p fs)"
proof -
  let ?rows = "filter (\<lambda>r. cm_pdf_path r = pdf_path) (stored_comments md5 pdf_path fs)"
  have "fst (get_all_comments_for_pdf md5 pdf_path fs) =
          map comment_annotation (sort_key (\<lambda>r. (cm_page_number r, cm_id r)) ?rows)"
    by (simp add: get_all_comments_for_pdf_def get_pdf_specific_db_connection_def Let_def
        stored_comments_def comment_annotation_def)
  then have "filter (\<lambda>a. annot_page a = p) (fst (get_all_comments_for_pdf md5 pdf_path fs)) =
          map comment_annotation
            (filter (\<lambda>r. cm_page_number r = p) (sort_key (\<lambda>r. (cm_page_number r, cm_id r)) ?rows))"
    by (simp add: filter_map comp_def comment_annotation_def)
  also have "\<dots> = map comment_annotation (sort_key cm_id (filter (\<lambda>r. cm_page_number r = p) ?rows))"
    by (simp only: sort_key_page_id)
  finally show ?thesis
    by (simp add: page_comments_def conj_commute)
qed

lemma stored_after_get_all_highlights:
  "stored_comments md5 pdf_path (snd (get_all_highlights_for_pdf md5 pdf_path fs)) =
     stored_comments md5 pdf_path fs"
  by (simp add: get_all_highlights_for_pdf_def get_pdf_specific_db_connection_def Let_def
      stored_comments_def)

lemma get_all_comments_after_highlights:
  "fst (get_all_comments_for_pdf md5 pdf_path (snd (get_all_highlights_for_pdf md5 pdf_path fs))) =
     fst (get_all_comments_for_pdf md5 pdf_path fs)"
  by (simp add: get_all_comments_for_pdf_def get_all_highlights_for_pdf_def
      get_pdf_specific_db_connection_def Let_def)

lemma populate_annotations_list_items:
  "fst (populate_annotations_list md5 pdf_path fs) =
     (let l = sort_key annot_page (fst (get_all_highlights_for_pdf md5 pdf_path fs) @
                                   fst (get_all_comments_for_pdf md5 pdf_path fs))
      in if l = [] then [NoAnnotationsFound] else map AnnotItem l)"
  by (simp add: populate_annotations_list_def split_def Let_def get_all_comments_after_highlights)

text \<open>
  Claim C4, as amended. The list shows the annotations by ascending page; on one page all
  highlights come first, by ascending id, and the comments follow, by ascending id. Ids grow
  with creation, so creation order is kept among the highlights and among the comments of a
  page, not between a highlight and a comment.
\<close>

theorem populate_annotations_list_order:
  "\<exists>l. fst (populate_annotations_list md5 pdf_path fs) =
          (if l = [] then [NoAnnotationsFound] else map AnnotItem l) \<and>
        sorted (map annot_page l) \<and>
        (\<forall>p. filter (\<lambda>a. annot_page a = p) l =
               map highlight_annotation (page_highlights md5 pdf_path p fs) @
               map comment_annotation (page_comments md5 pdf_path p fs))"
proof -
  let ?hs = "fst (get_all_highlights_for_pdf md5 pdf_path fs)"
  let ?cs = "fst (get_all_comments_for_pdf md5 pdf_path fs)"
  let ?l = "sort_key annot_page (?hs @ ?cs)"
  have items: "fst (populate_annotations_list md5 pdf_path fs) =
                 (if ?l = [] then [NoAnnotationsFound] else map AnnotItem ?l)"
    by (simp add: populate_annotations_list_items Let_def)
  have pages: "sorted (map annot_page ?l)"
    by (rule sorted_sort_key)
  have same_page: "filter (\<lambda>a. annot_page a = p) ?l =
               map highlight_annotation (page_highlights md5 pdf_path p fs) @
               map comment_annotation (page_comments md5 pdf_path p fs)" for p
  proof -
    have "filter (\<lambda>a. annot_page a = p) ?l = filter (\<lambda>a. annot_page a = p) (?hs @ ?cs)"
      by (rule sort_key_stable)
    then show ?thesis
      by (simp add: get_all_highlights_for_pdf_page get_all_comments_for_pdf_page)
  qed
  from items pages same_page show ?thesis by blast
qed

lemma comment_then_highlight_rows:
  "stored_highlights id ''A.pdf'' comment_then_highlight =
     [\<lparr>hl_id = 1, hl_pdf_path = ''A.pdf'', hl_page_number = 1,
       hl_x0 = 10, hl_y0 = 10, hl_x1 = 50, hl_y1 = 20, highlighted_text = Some ''second''\<rparr>]"
  "stored_comments id ''A.pdf'' comment_then_highlight =
     [\<lparr>cm_id = 1, cm_pdf_path = ''A.pdf'', cm_page_number = 1,
       cm_x0 = 3, cm_y0 = 4, comment_text = ''first''\<rparr>]"
  by (simp_all add: comment_then_highlight_def add_comment_to_db_def add_highlight_to_db_def
      get_pdf_specific_db_connection_def insert_comment_def insert_or_ignore_highlight_def
      stored_comments_def stored_highlights_def read_pdf_db_def commit_pdf_db_def
      empty_profile_def empty_pdf_db_def next_rowid_def Let_def)

theorem populate_annotations_list_order_witness:
  "fst (populate_annotations_list id ''A.pdf'' comment_then_highlight) =
     [AnnotItem \<lparr>annot_type = Highlight, annot_page = 1, annot_text = Some ''second''\<rparr>,
      AnnotItem \<lparr>annot_type = Comment, annot_page = 1, annot_text = Some ''first''\<rparr>]"
proof -
  obtain l where items: "fst (populate_annotations_list id ''A.pdf'' comment_then_highlight) =
          (if l = [] then [NoAnnotationsFound] else map AnnotItem l)"
    and pages: "sorted (map annot_page l)"
    and same_page: "\<And>p. filter (\<lambda>a. annot_page a = p) l =
               map highlight_annotation (page_highlights id ''A.pdf'' p comment_then_highlight) @
               map comment_annotation (page_comments id ''A.pdf'' p comment_then_highlight)"
    using populate_annotations_list_order [of id "''A.pdf''" comment_then_highlight] by blast
  have one: "filter (\<lambda>a. annot_page a = 1) l =
     [\<lparr>annot_type = Highlight, annot_page = 1, annot_text = Some ''second''\<rparr>,
      \<lparr>annot_type = Comment, annot_page = 1, annot_text = Some ''first''\<rparr>]"
    by (simp add: same_page page_highlights_def page_comments_def comment_then_highlight_rows
        highlight_annotation_def comment_annotation_def)
  have other: "filter (\<lambda>a. annot_page a = p) l = []" if "p \<noteq> 1" for p
    using that
    by (simp add: same_page page_highlights_def page_comments_def comment_then_highlight_rows)
  have "annot_page a = 1" if "a \<in> set l" for a
    using that other [of "annot_page a"] by (auto simp: filter_empty_conv)
  then have "filter (\<lambda>a. annot_page a = 1) l = l"
    by (simp add: filter_id_conv)
  with one items show ?thesis by simp
qed

text \<open>
  Claim C4 as stated fails: the comment was created before the highlight of the same page,
  and the list shows the highlight first.
\<close>

theorem populate_annotations_list_creation_order_counterexample:
  "map cm_id (stored_comments id ''A.pdf''
       (snd (add_comment_to_db id ''A.pdf'' 1 \<lparr>point_x = 3, point_y = 4\<rparr> ''first''
               empty_profile))) = [1] \<and>
   stored_highlights id ''A.pdf''
       (snd (add_comment_to_db id ''A.pdf'' 1 \<lparr>point_x = 3, point_y = 4\<rparr> ''first''
               empty_profile)) = [] \<and>
   fst (populate_annotations_list id ''A.pdf''
          (add_highlight_to_db id ''A.pdf'' 1
             \<lparr>rect_x0 = 10, rect_y0 = 10, rect_x1 = 50, rect_y1 = 20\<rparr> (Some ''second'')
             (snd (add_comment_to_db id ''A.pdf'' 1 \<lparr>point_x = 3, point_y = 4\<rparr> ''first''
                     empty_profile)))) =
     [AnnotItem \<lparr>annot_type = Highlight, annot_page = 1, annot_text = Some ''second''\<rparr>,
      AnnotItem \<lparr>annot_type = Comment, annot_page = 1, annot_text = Some ''first''\<rparr>]"
  by (simp add: populate_annotations_list_def get_all_highlights_for_pdf_def
      get_all_comments_for_pdf_def add_comment_to_db_def add_highlight_to_db_def
      get_pdf_specific_db_connection_def insert_comment_def insert_or_ignore_highlight_def
      stored_comments_def stored_highlights_def read_pdf_db_def commit_pdf_db_def
      empty_profile_def empty_pdf_db_def next_rowid_def Let_def)

section \<open>Properties of the migration\<close>

lemma migrate_pdf_data_guard:
  "pdf_db_files fs (get_pdf_db_path md5 pdf_path) \<noteq> None \<Longrightarrow>
   migrate_pdf_data md5 fault pdf_path fs = (None, fs)"
  by (simp add: migrate_pdf_data_def)

lemma migrate_rows_same_or_created:
  "snd (migrate_rows md5 fault pdf_path fs old hs cs highlights comments) = fs \<or>
   pdf_db_files (snd (migrate_rows md5 fault pdf_path fs old hs cs highlights comments))
     (get_pdf_db_path md5 pdf_path) \<noteq> None"
  by (simp add: migrate_rows_def get_pdf_specific_db_connection_def commit_pdf_db_def Let_def)

lemma migrate_pdf_data_same_or_created:
  "snd (migrate_pdf_data md5 fault pdf_path fs) = fs \<or>
   pdf_db_files (snd (migrate_pdf_data md5 fault pdf_path fs)) (get_pdf_db_path md5 pdf_path) \<noteq> None"
  using migrate_rows_same_or_created [of md5 fault pdf_path fs]
  by (simp add: migrate_pdf_data_def Let_def split: option.splits)

lemma migrate_pdf_data_twice:
  "snd (migrate_pdf_data md5 fault pdf_path (snd (migrate_pdf_data md5 fault pdf_path fs))) =
   snd (migrate_pdf_data md5 fault pdf_path fs)"
  using migrate_pdf_data_same_or_created [of md5 fault pdf_path fs]
  by (auto simp: migrate_pdf_data_guard)

lemma migrate_pdf_data_repeated:
  "((\<lambda>s. snd (migrate_pdf_data md5 fault pdf_path s)) ^^ Suc n) fs =
   snd (migrate_pdf_data md5 fault pdf_path fs)"
proof (induction n)
  case 0
  show ?case by simp
next
  case (Suc n)
  have "((\<lambda>s. snd (migrate_pdf_data md5 fault pdf_path s)) ^^ Suc (Suc n)) fs =
        snd (migrate_pdf_data md5 fault pdf_path
              (((\<lambda>s. snd (migrate_pdf_data md5 fault pdf_path s)) ^^ Suc n) fs))"
    by simp
  also have "\<dots> = snd (migrate_pdf_data md5 fault pdf_path (snd (migrate_pdf_data md5 fault pdf_path fs)))"
    by (simp only: Suc.IH)
  also have "\<dots> = snd (migrate_pdf_data md5 fault pdf_path fs)"
    by (rule migrate_pdf_data_twice)
  finally show ?case .
qed

text \<open>
  Claim C8. When the per-document file exists, \<open>migrate_pdf_data\<close> returns at its first
  test and leaves the whole profile as it is, whichever call would have failed; and running
  it any number of times leaves the profile as one run does (for runs without a failure, and
  as well when the same call fails in every run).
\<close>

theorem migrate_pdf_data_guarded_idempotent:
  "(pdf_db_files fs (get_pdf_db_path md5 pdf_path) \<noteq> None \<longrightarrow>
      (\<forall>fault. migrate_pdf_data md5 fault pdf_path fs = (None, fs))) \<and>
   (\<forall>fault n. ((\<lambda>s. snd (migrate_pdf_data md5 fault pdf_path s)) ^^ Suc n) fs =
         snd (migrate_pdf_data md5 fault pdf_path fs))"
proof (intro conjI impI allI)
  fix fault
  assume "pdf_db_files fs (get_pdf_db_path md5 pdf_path) \<noteq> None"
  then show "migrate_pdf_data md5 fault pdf_path fs = (None, fs)"
    by (rule migrate_pdf_data_guard)
next
  fix fault n
  show "((\<lambda>s. snd (migrate_pdf_data md5 fault pdf_path s)) ^^ Suc n) fs =
         snd (migrate_pdf_data md5 fault pdf_path fs)"
    by (rule migrate_pdf_data_repeated)
qed

lemma legacy_profile_no_file:
  "pdf_db_files legacy_profile (get_pdf_db_path id ''A.pdf'') = None"
  by (simp add: legacy_profile_def)

lemma legacy_profile_migrated_file:
  "pdf_db_files (snd (migrate_pdf_data id None ''A.pdf'' legacy_profile))
     (get_pdf_db_path id ''A.pdf'') \<noteq> None"
  by (simp add: migrate_pdf_data_def migrate_rows_def legacy_profile_def
      get_pdf_specific_db_connection_def commit_pdf_db_def Let_def)

theorem migrate_pdf_data_guarded_idempotent_witness:
  "pdf_db_files (snd (migrate_pdf_data id None ''A.pdf'' legacy_profile))
     (get_pdf_db_path id ''A.pdf'') \<noteq> None \<and>
   migrate_pdf_data id (Some InsertHighlights) ''A.pdf''
     (snd (migrate_pdf_data id None ''A.pdf'' legacy_profile)) =
     (None, snd (migrate_pdf_data id None ''A.pdf'' legacy_profile)) \<and>
   ((\<lambda>s. snd (migrate_pdf_data id None ''A.pdf'' s)) ^^ Suc 2) legacy_profile =
     snd (migrate_pdf_data id None ''A.pdf'' legacy_profile)"
  using legacy_profile_migrated_file
    migrate_pdf_data_guarded_idempotent
      [of "snd (migrate_pdf_data id None ''A.pdf'' legacy_profile)" id "''A.pdf''"]
    migrate_pdf_data_guarded_idempotent [of legacy_profile id "''A.pdf''"]
  by blast

lemma pdf_highlights_insert_or_ignore_comment [simp]:
  "pdf_highlights (insert_or_ignore_comment rowid pdf_path page_num a b body db) = pdf_highlights db"
  by (simp add: insert_or_ignore_comment_def Let_def)

lemma pdf_comments_insert_or_ignore_highlight [simp]:
  "pdf_comments (insert_or_ignore_highlight rowid pdf_path page_num a b c d body db) = pdf_comments db"
  by (simp add: insert_or_ignore_highlight_def Let_def)

lemma pdf_highlights_executemany_comments [simp]:
  "pdf_highlights (executemany_comments rows db) = pdf_highlights db"
  unfolding executemany_comments_def by (induction rows arbitrary: db) simp_all

lemma pdf_comments_executemany_highlights [simp]:
  "pdf_comments (executemany_highlights rows db) = pdf_comments db"
  unfolding executemany_highlights_def by (induction rows arbitrary: db) simp_all

lemma executemany_highlights_appends:
  "distinct (map hl_id (pdf_highlights db @ rows)) \<Longrightarrow>
   distinct (map hl_key (pdf_highlights db @ rows)) \<Longrightarrow>
   pdf_highlights (executemany_highlights rows db) = pdf_highlights db @ rows"
proof (induction rows arbitrary: db)
  case Nil
  show ?case by (simp add: executemany_highlights_def)
next
  case (Cons r rows)
  let ?db = "insert_or_ignore_highlight (Some (hl_id r)) (hl_pdf_path r) (hl_page_number r)
               (hl_x0 r) (hl_y0 r) (hl_x1 r) (hl_y1 r) (highlighted_text r) db"
  have step: "pdf_highlights ?db = pdf_highlights db @ [r]"
    using Cons.prems
    by (auto simp: insert_or_ignore_highlight_def Let_def list_ex_iff hl_key_def image_iff)
  have "pdf_highlights (executemany_highlights rows ?db) = pdf_highlights ?db @ rows"
    using Cons.prems by (intro Cons.IH) (simp_all add: step)
  then show ?case by (simp add: executemany_highlights_def step)
qed

lemma executemany_comments_appends:
  "distinct (map cm_id (pdf_comments db @ rows)) \<Longrightarrow>
   pdf_comments (executemany_comments rows db) = pdf_comments db @ rows"
proof (induction rows arbitrary: db)
  case Nil
  show ?case by (simp add: executemany_comments_def)
next
  case (Cons r rows)
  let ?db = "insert_or_ignore_comment (Some (cm_id r)) (cm_pdf_path r) (cm_page_number r)
               (cm_x0 r) (cm_y0 r) (comment_text r) db"
  have step: "pdf_comments ?db = pdf_comments db @ [r]"
    using Cons.prems
    by (auto simp: insert_or_ignore_comment_def Let_def list_ex_iff image_iff)
  have "pdf_comments (executemany_comments rows ?db) = pdf_comments ?db @ rows"
    using Cons.prems by (intro Cons.IH) (simp_all add: step)
  then show ?case by (simp add: executemany_comments_def step)
qed

lemma migrate_rows_fault_keeps_shared:
  "fst (migrate_rows md5 fault pdf_path fs old hs cs highlights comments) = Some Warning \<Longrightarrow>
   fault \<noteq> Some CloseOld \<Longrightarrow>
   main_db_file (snd (migrate_rows md5 fault pdf_path fs old hs cs highlights comments)) =
     main_db_file fs"
  by (auto simp: migrate_rows_def get_pdf_specific_db_connection_def Let_def split: if_splits)

lemma migrate_pdf_data_fault_keeps_shared:
  "fst (migrate_pdf_data md5 fault pdf_path fs) = Some Warning \<Longrightarrow> fault \<noteq> Some CloseOld \<Longrightarrow>
   main_db_file (snd (migrate_pdf_data md5 fault pdf_path fs)) = main_db_file fs"
  using migrate_rows_fault_keeps_shared [of md5 fault pdf_path fs]
  by (auto simp: migrate_pdf_data_def Let_def split: option.splits if_splits)

lemma migrate_rows_changed_shared:
  assumes "main_db_file (snd (migrate_rows md5 fault pdf_path fs old hs cs highlights comments)) \<noteq>
           main_db_file fs"
    and "pdf_db_files fs (get_pdf_db_path md5 pdf_path) = None"
  shows "read_pdf_db (snd (migrate_rows md5 fault pdf_path fs old hs cs highlights comments))
           (get_pdf_db_path md5 pdf_path) =
         executemany_comments comments (executemany_highlights highlights empty_pdf_db)"
  using assms
  by (auto simp: migrate_rows_def get_pdf_specific_db_connection_def Let_def read_pdf_db_def
      commit_pdf_db_def split: if_splits)

lemma migrate_pdf_data_changed_shared:
  assumes "main_db_file (snd (migrate_pdf_data md5 fault pdf_path fs)) \<noteq> main_db_file fs"
  shows "read_pdf_db (snd (migrate_pdf_data md5 fault pdf_path fs)) (get_pdf_db_path md5 pdf_path) =
           executemany_comments (shared_comments pdf_path fs)
             (executemany_highlights (shared_highlights pdf_path fs) empty_pdf_db)"
    and "pdf_db_files (snd (migrate_pdf_data md5 fault pdf_path fs)) (get_pdf_db_path md5 pdf_path) \<noteq> None"
proof -
  from assms have neq: "snd (migrate_pdf_data md5 fault pdf_path fs) \<noteq> fs"
    by auto
  with migrate_pdf_data_same_or_created [of md5 fault pdf_path fs]
  show "pdf_db_files (snd (migrate_pdf_data md5 fault pdf_path fs)) (get_pdf_db_path md5 pdf_path) \<noteq> None"
    by simp
  from neq obtain old hs cs where
    none: "pdf_db_files fs (get_pdf_db_path md5 pdf_path) = None" and
    old: "main_db_file fs = Some old" "old_pdf_highlights old = Some hs" "old_pdf_comments old = Some cs" and
    run: "migrate_pdf_data md5 fault pdf_path fs =
          migrate_rows md5 fault pdf_path fs old hs cs
            (filter (\<lambda>r. hl_pdf_path r = pdf_path) hs) (filter (\<lambda>r. cm_pdf_path r = pdf_path) cs)"
    by (auto simp: migrate_pdf_data_def Let_def split: option.splits if_splits)
  from old have rows: "shared_highlights pdf_path fs = filter (\<lambda>r. hl_pdf_path r = pdf_path) hs"
    "shared_comments pdf_path fs = filter (\<lambda>r. cm_pdf_path r = pdf_path) cs"
    by (simp_all add: shared_highlights_def shared_comments_def)
  from assms show "read_pdf_db (snd (migrate_pdf_data md5 fault pdf_path fs)) (get_pdf_db_path md5 pdf_path) =
           executemany_comments (shared_comments pdf_path fs)
             (executemany_highlights (shared_highlights pdf_path fs) empty_pdf_db)"
    unfolding run rows by (rule migrate_rows_changed_shared) (rule none)
qed

text \<open>
  Claim C10. A run that ends in the warning of a handler, the failing call being any but the
  closing of the old connection (so anything up to the shared store's own commit), leaves
  the shared store exactly as it was. Whenever a
  run does change the shared store, the per-document file exists and, the old tables obeying
  their key constraints, holds exactly the highlights and the comments the shared store had
  for the document.
\<close>

theorem migrate_pdf_data_failure_keeps_shared_rows:
  "(\<forall>fault. fst (migrate_pdf_data md5 fault pdf_path fs) = Some Warning \<and> fault \<noteq> Some CloseOld \<longrightarrow>
        main_db_file (snd (migrate_pdf_data md5 fault pdf_path fs)) = main_db_file fs) \<and>
   (\<forall>fault. main_db_file (snd (migrate_pdf_data md5 fault pdf_path fs)) \<noteq> main_db_file fs \<longrightarrow>
        pdf_db_files (snd (migrate_pdf_data md5 fault pdf_path fs))
          (get_pdf_db_path md5 pdf_path) \<noteq> None \<and>
        (distinct (map hl_id (shared_highlights pdf_path fs)) \<and>
         distinct (map hl_key (shared_highlights pdf_path fs)) \<longrightarrow>
           stored_highlights md5 pdf_path (snd (migrate_pdf_data md5 fault pdf_path fs)) =
             shared_highlights pdf_path fs) \<and>
        (distinct (map cm_id (shared_comments pdf_path fs)) \<longrightarrow>
           stored_comments md5 pdf_path (snd (migrate_pdf_data md5 fault pdf_path fs)) =
             shared_comments pdf_path fs))"
proof (intro conjI allI impI)
  fix fault
  assume "fst (migrate_pdf_data md5 fault pdf_path fs) = Some Warning \<and> fault \<noteq> Some CloseOld"
  then show "main_db_file (snd (migrate_pdf_data md5 fault pdf_path fs)) = main_db_file fs"
    by (simp add: migrate_pdf_data_fault_keeps_shared)
next
  fix fault
  assume changed: "main_db_file (snd (migrate_pdf_data md5 fault pdf_path fs)) \<noteq> main_db_file fs"
  show "pdf_db_files (snd (migrate_pdf_data md5 fault pdf_path fs))
          (get_pdf_db_path md5 pdf_path) \<noteq> None"
    by (rule migrate_pdf_data_changed_shared(2) [OF changed])
  {
    assume "distinct (map hl_id (shared_highlights pdf_path fs)) \<and>
            distinct (map hl_key (shared_highlights pdf_path fs))"
    then have "pdf_highlights (executemany_highlights (shared_highlights pdf_path fs) empty_pdf_db) =
               pdf_highlights empty_pdf_db @ shared_highlights pdf_path fs"
      by (intro executemany_highlights_appends) (simp_all add: empty_pdf_db_def)
    then show "stored_highlights md5 pdf_path (snd (migrate_pdf_data md5 fault pdf_path fs)) =
               shared_highlights pdf_path fs"
      by (simp add: stored_highlights_def migrate_pdf_data_changed_shared(1) [OF changed]
          empty_pdf_db_def)
  }
  {
    assume "distinct (map cm_id (shared_comments pdf_path fs))"
    then have "pdf_comments (executemany_comments (shared_comments pdf_path fs)
                 (executemany_highlights (shared_highlights pdf_path fs) empty_pdf_db)) =
               pdf_comments (executemany_highlights (shared_highlights pdf_path fs) empty_pdf_db) @
               shared_comments pdf_path fs"
      by (intro executemany_comments_appends) (simp add: empty_pdf_db_def)
    then show "stored_comments md5 pdf_path (snd (migrate_pdf_data md5 fault pdf_path fs)) =
               shared_comments pdf_path fs"
      by (simp add: stored_comments_def migrate_pdf_data_changed_shared(1) [OF changed]
          empty_pdf_db_def)
  }
qed

lemma legacy_profile_shared:
  "shared_highlights ''A.pdf'' legacy_profile =
     [\<lparr>hl_id = 1, hl_pdf_path = ''A.pdf'', hl_page_number = 2,
       hl_x0 = 10, hl_y0 = 10, hl_x1 = 50, hl_y1 = 20, highlighted_text = Some ''x''\<rparr>]"
  "shared_comments ''A.pdf'' legacy_profile =
     [\<lparr>cm_id = 7, cm_pdf_path = ''A.pdf'', cm_page_number = 3,
       cm_x0 = 3, cm_y0 = 4, comment_text = ''n''\<rparr>]"
  by (simp_all add: shared_highlights_def shared_comments_def legacy_profile_def)

lemma legacy_profile_migrated_shared:
  "shared_highlights ''A.pdf'' (snd (migrate_pdf_data id None ''A.pdf'' legacy_profile)) = []"
  "shared_comments ''A.pdf'' (snd (migrate_pdf_data id None ''A.pdf'' legacy_profile)) = []"
  by (simp_all add: shared_highlights_def shared_comments_def migrate_pdf_data_def
      migrate_rows_def legacy_profile_def get_pdf_specific_db_connection_def commit_pdf_db_def
      Let_def)

lemma legacy_profile_failed_insert:
  "fst (migrate_pdf_data id (Some InsertHighlights) ''A.pdf'' legacy_profile) = Some Warning"
  by (simp add: migrate_pdf_data_def migrate_rows_def legacy_profile_def
      get_pdf_specific_db_connection_def commit_pdf_db_def Let_def)

theorem migrate_pdf_data_failure_keeps_shared_rows_witness:
  "fst (migrate_pdf_data id (Some InsertHighlights) ''A.pdf'' legacy_profile) = Some Warning \<and>
   main_db_file (snd (migrate_pdf_data id (Some InsertHighlights) ''A.pdf'' legacy_profile)) =
     main_db_file legacy_profile \<and>
   shared_highlights ''A.pdf'' (snd (migrate_pdf_data id None ''A.pdf'' legacy_profile)) = [] \<and>
   stored_highlights id ''A.pdf'' (snd (migrate_pdf_data id None ''A.pdf'' legacy_profile)) =
     shared_highlights ''A.pdf'' legacy_profile \<and>
   stored_comments id ''A.pdf'' (snd (migrate_pdf_data id None ''A.pdf'' legacy_profile)) =
     shared_comments ''A.pdf'' legacy_profile"
proof -
  have "shared_highlights ''A.pdf'' (snd (migrate_pdf_data id None ''A.pdf'' legacy_profile)) \<noteq>
        shared_highlights ''A.pdf'' legacy_profile"
    by (simp add: legacy_profile_migrated_shared legacy_profile_shared)
  then have changed: "main_db_file (snd (migrate_pdf_data id None ''A.pdf'' legacy_profile)) \<noteq>
                 main_db_file legacy_profile"
    unfolding shared_highlights_def by metis
  have keys: "distinct (map hl_id (shared_highlights ''A.pdf'' legacy_profile))"
    "distinct (map hl_key (shared_highlights ''A.pdf'' legacy_profile))"
    "distinct (map cm_id (shared_comments ''A.pdf'' legacy_profile))"
    by (simp_all add: legacy_profile_shared)
  have fault: "Some InsertHighlights \<noteq> Some CloseOld" by simp
  show ?thesis
    using migrate_pdf_data_failure_keeps_shared_rows [of id "''A.pdf''" legacy_profile]
      changed keys fault legacy_profile_migrated_shared(1) legacy_profile_failed_insert
    by blast
qed

section \<open>Properties of the coordinate mapper\<close>

lemma intersects_pixel:
  "0 \<le> w \<Longrightarrow> 0 \<le> h \<Longrightarrow>
   intersects (QRect a b w h) (QRect px py 1 1) =
     (a \<le> px \<and> px < a + w \<and> b \<le> py \<and> py < b + h)"
  by (auto simp: intersects_def QRect_def rect_isNull_def Let_def)

lemma letterbox_float_offset:
  "\<exists>c sw sh. letterbox fl pix lbl = (PyFloat c, PyInt 0, sw, sh) \<or>
             letterbox fl pix lbl = (PyInt 0, PyFloat c, sw, sh)"
  by (simp add: letterbox_def py_truediv_def Let_def)

lemma QRect_call_float:
  "QRect_call (PyFloat c) b w h = Inl TypeError"
  "QRect_call (PyInt a) (PyFloat c) w h = Inl TypeError"
  by (simp_all add: QRect_call_def)

text \<open>
  Every call that reaches the construction of the image rectangle raises: whatever the
  sizes, the DPI, the selection and the float arithmetic, one offset is a float.
\<close>

lemma convert_widget_pos_to_pdf_rect_raises:
  assumes "label_pixmap pw = Some pm" "\<not> pixmap_isNull pm"
    and "\<not> size_isEmpty (pixmap_size pm)" "\<not> size_isEmpty (label_size pw)"
  shows "convert_widget_pos_to_pdf_rect fl current_dpi pw selection_rect = Inl TypeError"
proof -
  from letterbox_float_offset [of fl "pixmap_size pm" "label_size pw"]
  obtain c sw sh where
    "letterbox fl (pixmap_size pm) (label_size pw) = (PyFloat c, PyInt 0, sw, sh) \<or>
     letterbox fl (pixmap_size pm) (label_size pw) = (PyInt 0, PyFloat c, sw, sh)"
    by blast
  then show ?thesis
  proof
    assume "letterbox fl (pixmap_size pm) (label_size pw) = (PyFloat c, PyInt 0, sw, sh)"
    with assms show ?thesis
      by (simp add: convert_widget_pos_to_pdf_rect_def QRect_call_float)
  next
    assume "letterbox fl (pixmap_size pm) (label_size pw) = (PyInt 0, PyFloat c, sw, sh)"
    with assms show ?thesis
      by (simp add: convert_widget_pos_to_pdf_rect_def QRect_call_float)
  qed
qed

lemma narrow_page_widget_shown:
  "label_pixmap narrow_page_widget =
     Some \<lparr>pixmap_size = \<lparr>size_width = 50, size_height = 100\<rparr>, pixmap_raster = [], pixmap_painted = []\<rparr>"
  "\<not> pixmap_isNull \<lparr>pixmap_size = \<lparr>size_width = 50, size_height = 100\<rparr>,
                       pixmap_raster = [], pixmap_painted = []\<rparr>"
  "\<not> size_isEmpty (pixmap_size \<lparr>pixmap_size = \<lparr>size_width = 50, size_height = 100\<rparr>,
                       pixmap_raster = [], pixmap_painted = []\<rparr>)"
  "\<not> size_isEmpty (label_size narrow_page_widget)"
  by (simp_all add: narrow_page_widget_def pixmap_isNull_def size_isEmpty_def)

text \<open>
  Claim C2 at a failing input: a page image of 50 by 100 pixels in a label of 100 by 100
  pixels, so with 25 pixels of padding on either side, and a click at pixel (0, 0), in the
  padding. The mapping does not return \<^verbatim>\<open>None\<close>: the offset 25.0 is handed to
  \<^verbatim>\<open>QRect\<close>, which raises a TypeError before \<^verbatim>\<open>intersects\<close> is asked. This holds for
  every float arithmetic \<open>fl\<close> and, by the lemma above, for every click on a shown page.
\<close>

theorem convert_widget_pos_to_pdf_point_padding_raises:
  "convert_widget_pos_to_pdf_point fl 75 narrow_page_widget (0, 0) = Inl TypeError"
proof -
  have "convert_widget_pos_to_pdf_rect fl 75 narrow_page_widget (QRect 0 0 1 1) = Inl TypeError"
    by (rule convert_widget_pos_to_pdf_rect_raises [OF narrow_page_widget_shown])
  then show ?thesis
    by (simp add: convert_widget_pos_to_pdf_point_def)
qed

section \<open>Properties of the render cache\<close>

lemma get_or_render_hit:
  "cache_dir w (cache_filename md5 (self_pdf_path v) page_num (self_current_dpi v)) = Some (Png pm) \<Longrightarrow>
   \<not> pixmap_isNull pm \<Longrightarrow>
   get_or_render md5 render v page_num w = (pm, w)"
  by (simp add: get_or_render_def QPixmap_load_def)

lemma get_or_render_miss:
  "cache_dir w (cache_filename md5 (self_pdf_path v) page_num (self_current_dpi v)) = None \<Longrightarrow>
   get_or_render md5 render v page_num w =
     render_and_save render (cache_filename md5 (self_pdf_path v) page_num (self_current_dpi v))
       page_num (self_current_dpi v) w"
  by (simp add: get_or_render_def)

lemma pixmap_isNull_null_pixmap [simp]: "pixmap_isNull null_pixmap"
  by (simp add: pixmap_isNull_def null_pixmap_def)

lemma get_or_render_cases:
  "get_or_render md5 render v page_num w =
     (case cache_dir w (cache_filename md5 (self_pdf_path v) page_num (self_current_dpi v)) of
        Some (Png pm) \<Rightarrow>
          if pixmap_isNull pm
          then render_and_save render (cache_filename md5 (self_pdf_path v) page_num (self_current_dpi v))
                 page_num (self_current_dpi v) w
          else (pm, w)
      | _ \<Rightarrow> render_and_save render (cache_filename md5 (self_pdf_path v) page_num (self_current_dpi v))
                 page_num (self_current_dpi v) w)"
  by (simp add: get_or_render_def QPixmap_load_def split: option.splits cache_file.splits)


lemma get_or_render_profile:
  "get_or_render md5 render v page_num (w\<lparr>profile_folder := fs\<rparr>) =
     (fst (get_or_render md5 render v page_num w),
      (snd (get_or_render md5 render v page_num w))\<lparr>profile_folder := fs\<rparr>)"
  by (simp add: get_or_render_cases render_and_save_def Let_def
      split: option.splits cache_file.splits)

lemma get_or_render_search_results:
  "get_or_render md5 render (v\<lparr>self_search_results := sr\<rparr>) page_num w =
     get_or_render md5 render v page_num w"
  by (simp add: get_or_render_cases split: option.splits cache_file.splits)


lemma load_page_in_range:
  assumes "self_doc_open v" "1 \<le> page_num" "page_num \<le> self_total_pages v"
    and "nat (page_num - 1) < length (self_page_widgets v)"
  shows "load_page md5 render page_num (v, w) =
     Inr (v\<lparr>self_page_widgets := (self_page_widgets v)
                [nat (page_num - 1) := (self_page_widgets v ! nat (page_num - 1))
                   \<lparr>label_pixmap := Some (fst (compose_page md5 v page_num
                        (fst (get_or_render md5 render v page_num w))
                        (profile_folder (snd (get_or_render md5 render v page_num w)))))\<rparr>]\<rparr>,
          (snd (get_or_render md5 render v page_num w))
            \<lparr>profile_folder := snd (compose_page md5 v page_num
                        (fst (get_or_render md5 render v page_num w))
                        (profile_folder (snd (get_or_render md5 render v page_num w))))\<rparr>)"
  using assms by (simp add: load_page_def Let_def split_def)



lemma sample_render_not_null: "\<not> pixmap_isNull (sample_render i d)"
  by (simp add: pixmap_isNull_def sample_render_def)



text \<open>
  Claim C7. What \<open>load_page\<close> leaves in the cache directory does not depend on the
  annotations in the profile folder nor on the search hits: the overlays go to the pixmap
  shown, never to a file. A call writes at most the file of (document, page, DPI), with the
  library's own rendering, and writes nothing when that file holds a readable pixmap. The
  operations of the annotation store act on the profile folder alone.
\<close>

theorem load_page_cache_ignores_annotations:
  "cache_after (load_page md5 render page_num (v\<lparr>self_search_results := sr\<rparr>, w\<lparr>profile_folder := fs\<rparr>)) =
     cache_after (load_page md5 render page_num (v, w)) \<and>
   (\<forall>v1 w1. load_page md5 render page_num (v, w) = Inr (v1, w1) \<longrightarrow>
      (cache_dir w1 = cache_dir w \<or>
       cache_dir w1 = (cache_dir w)(cache_filename md5 (self_pdf_path v) page_num (self_current_dpi v) \<mapsto>
                         Png (render (page_num - 1) (self_current_dpi v)))) \<and>
      (\<forall>pm. cache_dir w (cache_filename md5 (self_pdf_path v) page_num (self_current_dpi v)) =
               Some (Png pm) \<and> \<not> pixmap_isNull pm \<longrightarrow> cache_dir w1 = cache_dir w))"
proof (intro conjI allI impI)
  show "cache_after (load_page md5 render page_num (v\<lparr>self_search_results := sr\<rparr>, w\<lparr>profile_folder := fs\<rparr>)) =
     cache_after (load_page md5 render page_num (v, w))"
    by (simp add: cache_after_def load_page_def Let_def split_def get_or_render_search_results
        get_or_render_profile)
next
  fix v1 w1
  assume run: "load_page md5 render page_num (v, w) = Inr (v1, w1)"
  then have files: "cache_dir w1 = cache_dir w \<or>
                    cache_dir w1 = cache_dir (snd (get_or_render md5 render v page_num w))"
    by (auto simp: load_page_def Let_def split_def split: if_splits)
  show "cache_dir w1 = cache_dir w \<or>
       cache_dir w1 = (cache_dir w)(cache_filename md5 (self_pdf_path v) page_num (self_current_dpi v) \<mapsto>
                         Png (render (page_num - 1) (self_current_dpi v)))"
    using files
    by (auto simp: get_or_render_cases render_and_save_def Let_def
        split: option.splits cache_file.splits if_splits)
  fix pm
  assume "cache_dir w (cache_filename md5 (self_pdf_path v) page_num (self_current_dpi v)) =
               Some (Png pm) \<and> \<not> pixmap_isNull pm"
  then have "get_or_render md5 render v page_num w = (pm, w)"
    by (simp add: get_or_render_hit)
  with files show "cache_dir w1 = cache_dir w"
    by auto
qed


theorem load_page_cache_ignores_annotations_witness:
  "\<exists>v1 w1. load_page id sample_render 2 (sample_viewer, sample_world) = Inr (v1, w1) \<and>
     cache_dir w1 (cache_filename id ''A.pdf'' 2 75) = Some (Png (sample_render 1 75)) \<and>
     cache_after (load_page id sample_render 2 (v1, w1\<lparr>profile_folder := one_highlight_profile\<rparr>)) =
       Some (cache_dir w1)"
proof -
  have range: "self_doc_open sample_viewer" "(1::int) \<le> 2" "2 \<le> self_total_pages sample_viewer"
    "nat (2 - 1) < length (self_page_widgets sample_viewer)"
    by (simp_all add: sample_viewer_def)
  define v1 where "v1 = fst (projr (load_page id sample_render 2 (sample_viewer, sample_world)))"
  define w1 where "w1 = snd (projr (load_page id sample_render 2 (sample_viewer, sample_world)))"
  have first: "load_page id sample_render 2 (sample_viewer, sample_world) = Inr (v1, w1)"
    by (simp add: v1_def w1_def load_page_in_range [OF range])
  have v1_fields: "self_doc_open v1" "2 \<le> self_total_pages v1"
    "nat (2 - 1) < length (self_page_widgets v1)" "self_pdf_path v1 = ''A.pdf''"
    "self_current_dpi v1 = 75"
    by (simp_all add: v1_def load_page_in_range [OF range]) (simp_all add: sample_viewer_def)
  have cold: "cache_dir sample_world
      (cache_filename id (self_pdf_path sample_viewer) 2 (self_current_dpi sample_viewer)) = None"
    by (simp add: sample_world_def)
  have stored: "cache_dir w1 (cache_filename id ''A.pdf'' 2 75) = Some (Png (sample_render 1 75))"
    by (simp add: w1_def load_page_in_range [OF range] get_or_render_miss [OF cold]
        render_and_save_def sample_render_not_null Let_def)
       (simp add: sample_viewer_def)
  obtain v2 w2 where second: "load_page id sample_render 2 (v1, w1) = Inr (v2, w2)"
    using load_page_in_range [OF v1_fields(1) range(2) v1_fields(2,3)] by blast
  have hit: "cache_dir w1 (cache_filename id (self_pdf_path v1) 2 (self_current_dpi v1)) =
               Some (Png (sample_render 1 75)) \<and> \<not> pixmap_isNull (sample_render 1 75)"
    using stored by (simp add: v1_fields sample_render_not_null)
  have same: "v1\<lparr>self_search_results := self_search_results v1\<rparr> = v1"
    by simp
  have "cache_after (load_page id sample_render 2 (v1, w1\<lparr>profile_folder := one_highlight_profile\<rparr>)) =
        cache_after (load_page id sample_render 2 (v1, w1))"
    using load_page_cache_ignores_annotations [where ?md5.0 = id and render = sample_render
        and page_num = 2 and v = v1 and w = w1 and sr = "self_search_results v1"
        and fs = one_highlight_profile]
    by (simp only: same)
  moreover have "cache_dir w2 = cache_dir w1"
    using load_page_cache_ignores_annotations [where ?md5.0 = id and render = sample_render
        and page_num = 2 and v = v1 and w = w1 and sr = "self_search_results v1"
        and fs = one_highlight_profile] second hit
    by blast
  ultimately have "cache_after (load_page id sample_render 2
        (v1, w1\<lparr>profile_folder := one_highlight_profile\<rparr>)) = Some (cache_dir w1)"
    by (simp add: second cache_after_def)
  with first stored show ?thesis by blast
qed

section \<open>Properties of opening a viewer\<close>

lemma load_page_keeps_fields:
  assumes "load_page md5 render p s = Inr s'"
  shows "self_total_pages (fst s') = self_total_pages (fst s) \<and>
         length (self_page_widgets (fst s')) = length (self_page_widgets (fst s)) \<and>
         self_doc_open (fst s') = self_doc_open (fst s) \<and>
         self_last_known_page (fst s') = self_last_known_page (fst s) \<and>
         self_current_page_num (fst s') = self_current_page_num (fst s)"
  using assms by (auto simp: load_page_def Let_def split_def split: if_splits)

lemma load_page_returns:
  assumes "length (self_page_widgets (fst s)) = nat (self_total_pages (fst s))"
  shows "\<exists>s'. load_page md5 render p s = Inr s'"
proof (cases "self_doc_open (fst s) \<and> 1 \<le> p \<and> p \<le> self_total_pages (fst s)")
  case True
  then have "nat (p - 1) < length (self_page_widgets (fst s))"
    using assms by simp
  with True show ?thesis
    using load_page_in_range [of "fst s" p md5 render "snd s"] by simp
next
  case False
  then show ?thesis
    by (auto simp: load_page_def Let_def)
qed

lemma load_pages_returns:
  assumes "length (self_page_widgets (fst s)) = nat (self_total_pages (fst s))"
  shows "\<exists>s'. load_pages md5 render ps s = Inr s' \<and>
         self_total_pages (fst s') = self_total_pages (fst s) \<and>
         length (self_page_widgets (fst s')) = length (self_page_widgets (fst s)) \<and>
         self_last_known_page (fst s') = self_last_known_page (fst s) \<and>
         self_current_page_num (fst s') = self_current_page_num (fst s)"
  using assms
proof (induction ps arbitrary: s)
  case Nil
  show ?case by simp
next
  case (Cons p ps)
  from load_page_returns [OF Cons.prems] obtain s1 where
    s1: "load_page md5 render p s = Inr s1" by blast
  note keep = load_page_keeps_fields [OF s1]
  from keep Cons.prems have "length (self_page_widgets (fst s1)) = nat (self_total_pages (fst s1))"
    by simp
  from Cons.IH [OF this] keep s1 show ?case
    by auto
qed

lemma open_viewer_current_page:
  assumes "0 < page_count"
  shows "\<exists>v w'. open_viewer md5 fault render page_count lbl path initial_dpi w = Inr (v, w') \<and>
           self_total_pages v = page_count \<and>
           self_current_page_num v =
             fst (fst (get_item_details path (snd (migrate_pdf_data md5 fault path (profile_folder w)))))"
proof -
  let ?fs1 = "snd (migrate_pdf_data md5 fault path (profile_folder w))"
  let ?stored = "fst (fst (get_item_details path ?fs1))"
  let ?fs2 = "snd (get_item_details path ?fs1)"
  let ?v0 = "\<lparr>self_pdf_path = path, self_doc_open = True, self_total_pages = 0,
           self_current_dpi = initial_dpi, self_search_results = [], self_page_widgets = [],
           self_last_known_page = ?stored, self_current_page_num = ?stored\<rparr>"
  let ?v2 = "?v0\<lparr>self_page_widgets := replicate (nat page_count) \<lparr>label_pixmap = None, label_size = lbl\<rparr>,
                  self_total_pages := page_count\<rparr>"
  let ?w = "w\<lparr>profile_folder := ?fs2\<rparr>"
  have start: "open_viewer md5 fault render page_count lbl path initial_dpi w =
                 setup_pages md5 render page_count lbl (?v0, ?w)"
    by (simp add: open_viewer_def viewer_init_def split_def Let_def)
  have "length (self_page_widgets (fst (?v2, ?w))) = nat (self_total_pages (fst (?v2, ?w)))"
    by simp
  from load_pages_returns [OF this, of md5 render "[1..page_count]"] obtain s3 where
    s3: "load_pages md5 render [1..page_count] (?v2, ?w) = Inr s3" and
    fields: "self_total_pages (fst s3) = page_count"
      "length (self_page_widgets (fst s3)) = nat page_count"
      "self_last_known_page (fst s3) = ?stored" "self_current_page_num (fst s3) = ?stored"
    by auto
  have all: "load_all_pages md5 render (?v2, ?w) = Inr s3"
    using s3 by (simp add: load_all_pages_def)
  have go: "\<exists>v4. go_to_page ?stored (fst s3) = Inr v4 \<and> self_total_pages v4 = page_count \<and>
              self_current_page_num v4 = ?stored"
    using fields by (auto simp: go_to_page_def)
  then obtain v4 where v4: "go_to_page ?stored (fst s3) = Inr v4" "self_total_pages v4 = page_count"
    "self_current_page_num v4 = ?stored"
    by blast
  have "setup_pages md5 render page_count lbl (?v0, ?w) =
          Inr (v4, (snd s3)\<lparr>profile_folder :=
                 snd (populate_annotations_list md5 (self_pdf_path (fst s3)) (profile_folder (snd s3)))\<rparr>)"
    using assms all v4(1) fields(3)
    by (simp add: setup_pages_def Let_def)
  with start v4(2,3) show ?thesis
    by simp
qed

text \<open>
  Claim C5 at a failing input: the stored last page is 50 and the document now has 10 pages.
  Once the viewer is open, the timer's \<open>go_to_page\<close> has refused page 50 and
  \<^verbatim>\<open>current_page_num\<close> is still 50, outside the pages of the document.
\<close>

theorem open_viewer_stale_last_page:
  "\<exists>v w. open_viewer id None sample_render 10 \<lparr>size_width = 100, size_height = 100\<rparr>
            ''A.pdf'' 75 stale_world = Inr (v, w) \<and>
         self_total_pages v = 10 \<and> self_current_page_num v = 50"
proof -
  have "fst (fst (get_item_details ''A.pdf''
          (snd (migrate_pdf_data id None ''A.pdf'' (profile_folder stale_world))))) = 50"
    by (simp add: migrate_pdf_data_def stale_world_def get_item_details_def
        get_main_db_connection_def read_main_db_def Let_def)
  with open_viewer_current_page [of 10 id None sample_render "\<lparr>size_width = 100, size_height = 100\<rparr>"
      "''A.pdf''" 75 stale_world]
  show ?thesis by simp
qed

end
